theory Spec2Isabelle
  imports Main
begin

section \<open>The AAD analyzer script (scripts/aad_analyzer.py)\<close>

text \<open>
  The script is glue around three libraries: \<^verbatim>\<open>sqlite3\<close>, \<^verbatim>\<open>pandas\<close> and the file system.
  The embedding keeps the script's own control flow (the four stage functions, their
  loops, their \<^verbatim>\<open>try\<close>/\<^verbatim>\<open>except\<close> blocks and the \<^verbatim>\<open>__main__\<close> block) and takes what
  the libraries answer as a parameter, the record \<open>env\<close>: what a statement returns
  or raises, what the clock reads, whether pandas rejects a column. Every effect the
  script has on the outside is an \<open>event\<close>; a run is the result (an exception or a
  value) together with the events in the order they happened.

  Scope of the failure model: opening a connection, statements sent to the database,
  pandas operations on loaded data, creating the directory \<^verbatim>\<open>exports\<close> and \<^verbatim>\<open>to_csv\<close> may
  raise, as \<open>env\<close> says. The log is taken to be writable: creating the log directory
  when the module is loaded and appending to the log file succeed, and so do printing
  and reading the clock. The database is taken not to change during a run: a statement
  gets the same answer whenever it is sent, and the file can be opened by every stage
  or by none.
\<close>

subsection \<open>Text\<close>

text \<open>A Python \<^verbatim>\<open>str\<close> is a sequence of code points.\<close>

type_synonym pystr = "nat list"

definition ascii :: "string \<Rightarrow> pystr" where
  "ascii s = map of_char s"

abbreviation NL :: char where
  "NL \<equiv> CHR 0x0A"

definition LF :: nat where
  "LF = 10"

definition CR :: nat where
  "CR = 13"

definition SPACE :: nat where
  "SPACE = 32"

definition UNDERSCORE :: nat where
  "UNDERSCORE = 95"

text \<open>\<^verbatim>\<open>s.replace(old, new)\<close> where \<^verbatim>\<open>old\<close> and \<^verbatim>\<open>new\<close> are single characters, the only
  way the script calls it.\<close>

definition str_replace :: "nat \<Rightarrow> nat \<Rightarrow> pystr \<Rightarrow> pystr" where
  "str_replace old new s = map (\<lambda>c. if c = old then new else c) s"

text \<open>\<^verbatim>\<open>str.isspace\<close> on one code point: the Unicode white space characters.\<close>

definition isspace :: "nat \<Rightarrow> bool" where
  "isspace c \<longleftrightarrow>
     (9 \<le> c \<and> c \<le> 13) \<or> (28 \<le> c \<and> c \<le> 32) \<or> c = 133 \<or> c = 160 \<or> c = 5760 \<or>
     (8192 \<le> c \<and> c \<le> 8202) \<or> c = 8232 \<or> c = 8233 \<or> c = 8239 \<or> c = 8287 \<or> c = 12288"

text \<open>\<^verbatim>\<open>s.strip()\<close>: leading and trailing white space removed.\<close>

definition str_strip :: "pystr \<Rightarrow> pystr" where
  "str_strip s = rev (dropWhile isspace (rev (dropWhile isspace s)))"

text \<open>\<^verbatim>\<open>sub in s\<close>: substring test.\<close>

fun is_prefix :: "pystr \<Rightarrow> pystr \<Rightarrow> bool" where
  "is_prefix [] s = True"
| "is_prefix (p # ps) [] = False"
| "is_prefix (p # ps) (c # cs) = (p = c \<and> is_prefix ps cs)"

fun str_contains :: "pystr \<Rightarrow> pystr \<Rightarrow> bool" where
  "str_contains sub [] = (sub = [])"
| "str_contains sub (c # cs) = (is_prefix sub (c # cs) \<or> str_contains sub cs)"

subsection \<open>Exceptions, tables in memory\<close>

text \<open>The exception classes the libraries raise here; all derive from
  \<^verbatim>\<open>Exception\<close>, so \<^verbatim>\<open>except Exception\<close> catches each of them.\<close>

datatype exn =
    DatabaseError pystr
  | OperationalError pystr
  | KeyError pystr
  | AttributeError pystr
  | TypeError pystr
  | OSError pystr
  | FileExistsError pystr

text \<open>The dtype of a column. pandas before version 3 loads text as \<^verbatim>\<open>object\<close>; pandas 3
  loads it as its string dtype \<^verbatim>\<open>str\<close>, which is not \<^verbatim>\<open>object\<close>.\<close>

datatype dtype = Object | Int64 | Float64 | StringDtype

text \<open>A cell of a DataFrame. \<open>Missing\<close> is \<^verbatim>\<open>None\<close>/\<^verbatim>\<open>NaN\<close> (an SQL NULL, or what a
  string method leaves for a value that is no string); a float is kept as an opaque
  mantissa and exponent, since the script only passes it through.\<close>

datatype cell = Missing | CInt int | CFloat int int | CStr pystr | CBytes "nat list"

record column =
  cname :: pystr
  dtype :: dtype
  cells :: "cell list"

record dataframe =
  nrows :: nat
  columns :: "column list"

text \<open>A row of \<^verbatim>\<open>PRAGMA table_info\<close>.\<close>

record col_info =
  col_id :: int
  col_name :: pystr
  col_type :: pystr
  not_null :: int
  default_value :: cell
  pk :: int

text \<open>Paths are lists of components below \<^verbatim>\<open>Path(__file__).parent.parent\<close>.\<close>

type_synonym path = "pystr list"

subsection \<open>Formatted text, events\<close>

text \<open>An f-string is kept as its parts: the literal text and the interpolated values,
  in order. Rendering a value (\<^verbatim>\<open>str\<close> of a number, of a tuple, of an exception,
  \<^verbatim>\<open>DataFrame.to_string\<close>) is the library's business.\<close>

datatype piece =
    Lit string
  | Str pystr
  | LJust nat pystr
  | Num int
  | Flag bool
  | Shape nat nat
  | Names "pystr list"
  | Frame dataframe
  | FrameNoIndex dataframe
  | Err exn
  | PathP path

type_synonym message = "piece list"

text \<open>\<^verbatim>\<open>sqlite3.connect(path)\<close> with no URI opens the file for reading and writing and
  creates it when absent; a read-only connection needs \<^verbatim>\<open>mode=ro\<close> in a URI.\<close>

datatype open_mode = ReadWriteCreate | ReadOnly

datatype event =
    Mkdir path
  | Append path message
  | Print message
  | Connect path open_mode
  | Execute pystr
  | Close
  | ToCsv path dataframe

subsection \<open>The libraries, as a parameter\<close>

record env =
  db_exists :: bool
  strftime_now :: "nat \<Rightarrow> pystr"
  sqlite3_connect :: "exn option"
  mkdir :: "path \<Rightarrow> exn option"
  fetch_names :: "pystr \<Rightarrow> exn + pystr list"
  fetch_columns :: "pystr \<Rightarrow> exn + col_info list"
  fetch_count :: "pystr \<Rightarrow> exn + int"
  read_sql_query :: "pystr \<Rightarrow> exn + dataframe"
  str_accessor :: "column \<Rightarrow> exn option"
  str_extract :: "pystr \<Rightarrow> column \<Rightarrow> exn + column"
  groupby_sum :: "pystr \<Rightarrow> pystr \<Rightarrow> dataframe \<Rightarrow> exn + dataframe"
  to_csv :: "path \<Rightarrow> dataframe \<Rightarrow> exn option"

text \<open>
  \<^item> \<open>db_exists\<close>: \<^verbatim>\<open>DB_PATH.exists()\<close>;
  \<^item> \<open>strftime_now k\<close>: \<^verbatim>\<open>datetime.now().strftime('%Y%m%d_%H%M%S')\<close> at the script's
    \<open>k\<close>-th reading of the clock (reading 0 names the log file);
  \<^item> \<open>sqlite3_connect\<close>: the exception \<^verbatim>\<open>sqlite3.connect(DB_PATH)\<close> raises, if it does (the
    path is a directory, the file cannot be opened);
  \<^item> \<open>mkdir p\<close>: the exception \<^verbatim>\<open>p.mkdir(exist_ok=True)\<close> raises, if it does (a regular
    file has the name, the parent cannot be written);
  \<^item> \<open>fetch_names sql\<close>, \<open>fetch_columns sql\<close>, \<open>fetch_count sql\<close>:
    \<^verbatim>\<open>cursor.execute(sql)\<close> followed by \<^verbatim>\<open>fetchall\<close>/\<^verbatim>\<open>fetchone\<close>, read as the first field
    of each row, as \<^verbatim>\<open>table_info\<close> rows, as the single number of the single row;
  \<^item> \<open>read_sql_query sql\<close>: \<^verbatim>\<open>pd.read_sql_query(sql, conn)\<close>;
  \<^item> \<open>str_accessor s\<close>: the exception with which \<^verbatim>\<open>s.str.method(...)\<close> rejects the whole
    Series \<open>s\<close>, if it does (values that are no text);
  \<^item> \<open>str_extract pat s\<close>: \<^verbatim>\<open>s.str.extract(pat, expand=False)\<close>;
  \<^item> \<open>groupby_sum key val df\<close>:
    \<^verbatim>\<open>df.groupby(key, as_index=False)[val].sum().sort_values(key)\<close>;
  \<^item> \<open>to_csv p df\<close>: the exception \<^verbatim>\<open>df.to_csv(p, index=False, encoding='utf-8')\<close>
    raises, if it does.
\<close>

subsection \<open>Runs: a result and the events so far\<close>

type_synonym 'a run = "(exn + 'a) \<times> event list"

definition ret :: "'a \<Rightarrow> 'a run" where
  "ret x = (Inr x, [])"

definition lift :: "exn + 'a \<Rightarrow> 'a run" where
  "lift r = (r, [])"

definition emit :: "event \<Rightarrow> unit run" where
  "emit e = (Inr (), [e])"

definition and_then :: "'a run \<Rightarrow> ('a \<Rightarrow> 'b run) \<Rightarrow> 'b run" where
  "and_then m f =
     (case m of
        (Inl e, evs) \<Rightarrow> (Inl e, evs)
      | (Inr x, evs) \<Rightarrow> (case f x of (r, evs') \<Rightarrow> (r, evs @ evs')))"

text \<open>Statements one after the other; an exception ends the sequence.\<close>

fun seq_all :: "unit run list \<Rightarrow> unit run" where
  "seq_all [] = ret ()"
| "seq_all (m # ms) = and_then m (\<lambda>_. seq_all ms)"

text \<open>\<^verbatim>\<open>try: body except Exception as e: handler(e)\<close>\<close>

definition try_except :: "unit run \<Rightarrow> (exn \<Rightarrow> unit run) \<Rightarrow> unit run" where
  "try_except body handler =
     (case body of
        (Inl e, evs) \<Rightarrow> (case handler e of (r, evs') \<Rightarrow> (r, evs @ evs'))
      | (Inr x, evs) \<Rightarrow> (Inr x, evs))"

subsection \<open>Module level: paths and the logger\<close>

definition DB_PATH :: path where
  "DB_PATH = [ascii ''datasets'', ascii ''AAD'', ascii ''Automotive_Attack_Database_(AAD)_V3.0.db'']"

definition LOG_DIR :: path where
  "LOG_DIR = [ascii ''logs'']"

definition LOG_FILE :: "env \<Rightarrow> path" where
  "LOG_FILE env = LOG_DIR @ [ascii ''AAD_analysis_'' @ strftime_now env 0 @ ascii ''.log'']"

definition log_output :: "env \<Rightarrow> message \<Rightarrow> bool \<Rightarrow> unit run" where
  "log_output env message print_to_console =
     and_then (emit (Append (LOG_FILE env) (message @ [Lit [NL]])))
       (\<lambda>_. if print_to_console then emit (Print message) else ret ())"

text \<open>Every call in the script leaves \<^verbatim>\<open>print_to_console\<close> at its default.\<close>

abbreviation log :: "env \<Rightarrow> message \<Rightarrow> unit run" where
  "log env message \<equiv> log_output env message False"

definition print :: "message \<Rightarrow> unit run" where
  "print message = emit (Print message)"

definition rule60 :: string where
  "rule60 = replicate 60 CHR ''=''"

definition banner :: "env \<Rightarrow> string \<Rightarrow> unit run" where
  "banner env title = seq_all [log env [Lit rule60], log env [Lit title], log env [Lit rule60]]"

subsection \<open>Statements\<close>

definition sql_table_names :: pystr where
  "sql_table_names = ascii ''SELECT name FROM sqlite_master WHERE type='table';''"

definition sql_table_info :: "pystr \<Rightarrow> pystr" where
  \<open>sql_table_info table_name = ascii ''PRAGMA table_info("'' @ table_name @ ascii ''")''\<close>

definition sql_count :: "pystr \<Rightarrow> pystr" where
  \<open>sql_count table_name = ascii ''SELECT COUNT(*) FROM "'' @ table_name @ ascii ''"''\<close>

definition sql_select_all :: "pystr \<Rightarrow> pystr" where
  \<open>sql_select_all table_name = ascii ''SELECT * FROM "'' @ table_name @ ascii ''"''\<close>

text \<open>\<^verbatim>\<open>cursor.execute(sql)\<close> with the fetch that follows it, and \<^verbatim>\<open>pd.read_sql_query\<close>:
  the statement is sent, then the library answers or raises.\<close>

definition execute_fetch :: "(pystr \<Rightarrow> exn + 'a) \<Rightarrow> pystr \<Rightarrow> 'a run" where
  "execute_fetch answer sql = and_then (emit (Execute sql)) (\<lambda>_. lift (answer sql))"

text \<open>\<^verbatim>\<open>sqlite3.connect(DB_PATH)\<close>: the event stands for a connection opened.\<close>

definition connect :: "env \<Rightarrow> unit run" where
  "connect env =
     (case sqlite3_connect env of
        Some e \<Rightarrow> lift (Inl e)
      | None \<Rightarrow> emit (Connect DB_PATH ReadWriteCreate))"

text \<open>\<^verbatim>\<open>p.mkdir(exist_ok=True)\<close>: the event stands for a directory that is there afterwards.\<close>

definition path_mkdir :: "env \<Rightarrow> path \<Rightarrow> unit run" where
  "path_mkdir env p =
     (case mkdir env p of Some e \<Rightarrow> lift (Inl e) | None \<Rightarrow> emit (Mkdir p))"

definition close :: "unit run" where
  "close = emit Close"

subsection \<open>Stage 1: \<^verbatim>\<open>inspect_database\<close>\<close>

definition inspect_table :: "env \<Rightarrow> pystr \<Rightarrow> unit run" where
  "inspect_table env table_name =
     seq_all
       [log env [Lit ''Table: '', Str table_name],
        log env [Lit (replicate 40 CHR ''-'')],
        and_then (execute_fetch (fetch_columns env) (sql_table_info table_name))
          (\<lambda>cols. seq_all (map (\<lambda>col.
             log env [Lit ''  '', LJust 30 (col_name col), Lit '' '', LJust 10 (col_type col)]) cols)),
        and_then (execute_fetch (fetch_count env) (sql_count table_name))
          (\<lambda>row_count. log env [Lit (NL # ''  Total rows: ''), Num row_count, Lit [NL]])]"

definition inspect_database :: "env \<Rightarrow> unit run" where
  "inspect_database env =
     seq_all
       [banner env ''INSPECTING DATABASE STRUCTURE'',
        connect env,
        and_then (execute_fetch (fetch_names env) sql_table_names)
          (\<lambda>tables. seq_all
             [log env [Lit (NL # ''Found ''), Num (int (length tables)), Lit ('' table(s):'' @ [NL])],
              seq_all (map (inspect_table env) tables),
              close])]"

subsection \<open>Stage 2: \<^verbatim>\<open>load_data\<close>\<close>

text \<open>\<^verbatim>\<open>df.head(n)\<close>\<close>

definition df_head :: "nat \<Rightarrow> dataframe \<Rightarrow> dataframe" where
  "df_head n df =
     \<lparr>nrows = min n (nrows df),
      columns = map (\<lambda>c. c\<lparr>cells := take n (cells c)\<rparr>) (columns df)\<rparr>"

definition load_table :: "env \<Rightarrow> pystr \<Rightarrow> dataframe run" where
  "load_table env table_name =
     and_then (execute_fetch (read_sql_query env) (sql_select_all table_name))
       (\<lambda>df. and_then
          (seq_all
             [log env [Lit (NL # ''Table: ''), Str table_name],
              log env [Lit ''Shape: '', Shape (nrows df) (length (columns df))],
              log env [Lit ''Columns: '', Names (map cname (columns df)), Lit [NL]],
              log env [Frame (df_head 3 df)],
              log env [Lit []]])
          (\<lambda>_. ret df))"

fun load_tables :: "env \<Rightarrow> pystr list \<Rightarrow> (pystr \<rightharpoonup> dataframe) \<Rightarrow> (pystr \<rightharpoonup> dataframe) run" where
  "load_tables env [] dataframes = ret dataframes"
| "load_tables env (table_name # rest) dataframes =
     and_then (load_table env table_name)
       (\<lambda>df. load_tables env rest (dataframes(table_name \<mapsto> df)))"

definition load_data :: "env \<Rightarrow> (pystr \<rightharpoonup> dataframe) run" where
  "load_data env =
     and_then (seq_all [banner env ''LOADING DATA INTO PANDAS'', connect env])
       (\<lambda>_. and_then (execute_fetch (fetch_names env) sql_table_names)
          (\<lambda>tables. and_then (load_tables env tables Map.empty)
             (\<lambda>dataframes. and_then close (\<lambda>_. ret dataframes))))"

subsection \<open>Columns of a DataFrame\<close>

text \<open>\<^verbatim>\<open>df[key].attr\<close>, as far as finding the Series goes: \<^verbatim>\<open>KeyError\<close> when no column
  has the name; when several have it, \<^verbatim>\<open>df[key]\<close> is a DataFrame, which has neither
  a \<^verbatim>\<open>dtype\<close> nor a \<^verbatim>\<open>str\<close> attribute.\<close>

definition getitem :: "dataframe \<Rightarrow> pystr \<Rightarrow> string \<Rightarrow> exn + column" where
  "getitem df key attr =
     (case filter (\<lambda>c. cname c = key) (columns df) of
        [] \<Rightarrow> Inl (KeyError key)
      | [s] \<Rightarrow> Inr s
      | _ \<Rightarrow> Inl (AttributeError
                 (ascii ([CHR 0x27] @ ''DataFrame'' @ [CHR 0x27] @
                         '' object has no attribute '' @ [CHR 0x27] @ attr @ [CHR 0x27]))))"

text \<open>\<^verbatim>\<open>df[key] = s\<close> for a name that at most one column has.\<close>

definition setitem :: "dataframe \<Rightarrow> pystr \<Rightarrow> column \<Rightarrow> dataframe" where
  "setitem df key s =
     df\<lparr>columns :=
        (if key \<in> set (map cname (columns df))
         then map (\<lambda>c. if cname c = key then s\<lparr>cname := key\<rparr> else c) (columns df)
         else columns df @ [s\<lparr>cname := key\<rparr>])\<rparr>"

text \<open>A string method of the \<^verbatim>\<open>.str\<close> accessor: rejected for the whole Series as the
  library decides; otherwise applied to each string, and a value that is no string
  comes out missing. The result has dtype object.\<close>

fun str_apply :: "(pystr \<Rightarrow> pystr) \<Rightarrow> cell \<Rightarrow> cell" where
  "str_apply f (CStr x) = CStr (f x)"
| "str_apply f c = Missing"

definition str_method :: "env \<Rightarrow> (pystr \<Rightarrow> pystr) \<Rightarrow> column \<Rightarrow> column run" where
  "str_method env f s =
     (case str_accessor env s of
        Some e \<Rightarrow> lift (Inl e)
      | None \<Rightarrow> ret (s\<lparr>dtype := Object, cells := map (str_apply f) (cells s)\<rparr>))"

subsection \<open>Stage 3: \<^verbatim>\<open>example_queries\<close>\<close>

definition sql_first5 :: pystr where
  \<open>sql_first5 = ascii ''SELECT * FROM "Automotive Security Attacks" LIMIT 5''\<close>

definition sql_by_year :: pystr where
  \<open>sql_by_year = ascii
     ''SELECT Year, COUNT(*) as Count FROM "Automotive Security Attacks" GROUP BY Year ORDER BY Year''\<close>

definition sql_types :: pystr where
  \<open>sql_types = ascii
     ''SELECT "Attack Type", COUNT(*) as Count FROM "Automotive Security Attacks" GROUP BY "Attack Type" ORDER BY Count DESC LIMIT 10''\<close>

definition sql_props :: pystr where
  \<open>sql_props = ascii
     ''SELECT "Violated Security Property", COUNT(*) as Count FROM "Automotive Security Attacks" GROUP BY "Violated Security Property" ORDER BY Count DESC LIMIT 10''\<close>

text \<open>The regular expression \<^verbatim>\<open>(\d{4})\<close>.\<close>

definition year_pattern :: pystr where
  "year_pattern = ascii (''('' @ [CHR 0x5C] @ ''d{4})'')"

text \<open>The body of the \<^verbatim>\<open>try\<close> block.\<close>

definition example_queries_try :: "env \<Rightarrow> unit run" where
  "example_queries_try env =
     and_then (execute_fetch (read_sql_query env) sql_first5) (\<lambda>df.
     and_then (seq_all
       [log env [Lit (NL # ''First 5 attacks:'')],
        log env [Frame df],
        log env [Lit (NL # rule60)],
        log env [Lit ''Attacks by Year:''],
        log env [Lit rule60]]) (\<lambda>_.
     and_then (execute_fetch (read_sql_query env) sql_by_year) (\<lambda>df_by_year.
     and_then (lift (getitem df_by_year (ascii ''Year'') ''str'')) (\<lambda>year.
     and_then (lift (str_extract env year_pattern year)) (\<lambda>year.
     and_then (lift (groupby_sum env (ascii ''Year'') (ascii ''Count'')
                 (setitem df_by_year (ascii ''Year'') year))) (\<lambda>df_by_year_grouped.
     and_then (seq_all
       [log env [FrameNoIndex df_by_year_grouped],
        log env [Lit (NL # rule60)],
        log env [Lit ''Top 10 Attack Types:''],
        log env [Lit rule60]]) (\<lambda>_.
     and_then (execute_fetch (read_sql_query env) sql_types) (\<lambda>df_types.
     and_then (seq_all
       [log env [Frame df_types],
        log env [Lit (NL # rule60)],
        log env [Lit ''Security Properties Violated:''],
        log env [Lit rule60]]) (\<lambda>_.
     and_then (execute_fetch (read_sql_query env) sql_props) (\<lambda>df_props.
     log env [Frame df_props]))))))))))"

definition example_queries :: "env \<Rightarrow> unit run" where
  "example_queries env =
     seq_all
       [banner env ''EXAMPLE QUERIES'',
        connect env,
        try_except (example_queries_try env) (\<lambda>e. log env [Lit ''Query error: '', Err e]),
        close]"

subsection \<open>Stage 4: \<^verbatim>\<open>export_to_csv\<close>\<close>

definition OUTPUT_DIR :: path where
  "OUTPUT_DIR = [ascii ''exports'']"

text \<open>\<^verbatim>\<open>df[col].str.replace('\n', ' ').str.replace('\r', ' ').str.strip()\<close>\<close>

definition clean_series :: "env \<Rightarrow> column \<Rightarrow> column run" where
  "clean_series env s =
     and_then (str_method env (str_replace LF SPACE) s) (\<lambda>s1.
     and_then (str_method env (str_replace CR SPACE) s1) (\<lambda>s2.
     str_method env str_strip s2))"

text \<open>The loop over \<^verbatim>\<open>df.columns\<close>; the names are read once, the frame is updated in
  place.\<close>

fun clean_columns :: "env \<Rightarrow> pystr list \<Rightarrow> dataframe \<Rightarrow> dataframe run" where
  "clean_columns env [] df = ret df"
| "clean_columns env (col # rest) df =
     and_then (lift (getitem df col ''dtype'')) (\<lambda>s.
       if dtype s = Object
       then and_then (clean_series env s) (\<lambda>s'. clean_columns env rest (setitem df col s'))
       else clean_columns env rest df)"

definition csv_filename :: "pystr \<Rightarrow> pystr \<Rightarrow> pystr" where
  "csv_filename table_name stamp =
     ascii ''AAD_'' @ str_replace SPACE UNDERSCORE table_name @ ascii ''_'' @ stamp @ ascii ''.csv''"

text \<open>\<^verbatim>\<open>df.to_csv(path, index=False, encoding='utf-8')\<close>: the event stands for a file
  written.\<close>

definition df_to_csv :: "env \<Rightarrow> path \<Rightarrow> dataframe \<Rightarrow> unit run" where
  "df_to_csv env p df =
     (case to_csv env p df of Some e \<Rightarrow> lift (Inl e) | None \<Rightarrow> emit (ToCsv p df))"

text \<open>One pass of the loop over the tables; \<open>k\<close> counts the readings of the clock.\<close>

definition export_table :: "env \<Rightarrow> nat \<Rightarrow> pystr \<Rightarrow> unit run" where
  "export_table env k table_name =
     and_then (execute_fetch (read_sql_query env) (sql_select_all table_name)) (\<lambda>df.
     and_then (clean_columns env (map cname (columns df)) df) (\<lambda>df.
     seq_all
       [df_to_csv env (OUTPUT_DIR @ [csv_filename table_name (strftime_now env k)]) df,
        log env [Lit (NL # ''Exported: ''), Str table_name],
        log env [Lit ''  Rows: '', Num (int (nrows df))],
        log env [Lit ''  Columns: '', Num (int (length (columns df)))],
        log env [Lit ''  File: '',
                 PathP (OUTPUT_DIR @ [csv_filename table_name (strftime_now env k)])]]))"

fun export_tables :: "env \<Rightarrow> nat \<Rightarrow> pystr list \<Rightarrow> unit run" where
  "export_tables env k [] = ret ()"
| "export_tables env k (table_name # rest) =
     and_then (export_table env k table_name) (\<lambda>_. export_tables env (Suc k) rest)"

text \<open>The body of the \<^verbatim>\<open>try\<close> block.\<close>

definition export_to_csv_try :: "env \<Rightarrow> nat \<Rightarrow> unit run" where
  "export_to_csv_try env k =
     and_then (execute_fetch (fetch_names env) sql_table_names) (\<lambda>tables.
     seq_all
       [export_tables env k tables,
        log env [Lit (NL # ''All exports complete! Files saved to: ''), PathP OUTPUT_DIR],
        print [Lit (NL # ''CSV export complete! Files saved to: ''), PathP OUTPUT_DIR]])"

definition export_to_csv :: "env \<Rightarrow> nat \<Rightarrow> unit run" where
  "export_to_csv env k =
     seq_all
       [banner env ''EXPORTING DATA TO CSV'',
        path_mkdir env OUTPUT_DIR,
        connect env,
        try_except (export_to_csv_try env k)
          (\<lambda>e. seq_all [log env [Lit ''Export error: '', Err e],
                         print [Lit ''Export error: '', Err e]]),
        close]"

subsection \<open>The \<^verbatim>\<open>__main__\<close> block and the whole program\<close>

definition main :: "env \<Rightarrow> unit run" where
  "main env =
     seq_all
       [print [Lit (NL # ''Database path: ''), PathP DB_PATH],
        print [Lit ''Database exists: '', Flag (db_exists env)],
        print [Lit ''Log file: '', PathP (LOG_FILE env), Lit [NL]],
        if db_exists env
        then seq_all
          [inspect_database env,
           and_then (load_data env) (\<lambda>dataframes. ret ()),
           example_queries env,
           export_to_csv env 1,
           print [Lit (NL # ''Analysis complete! Results saved to: ''), PathP (LOG_FILE env)]]
        else print [Lit ''ERROR: Database file not found!'']]"

text \<open>Running the script: the module-level statements (the log directory is created,
  which is taken to succeed as every write to the log is, and the log file is named
  from the clock's reading 0), then the \<^verbatim>\<open>__main__\<close> block.\<close>

definition program :: "env \<Rightarrow> unit run" where
  "program env = seq_all [emit (Mkdir LOG_DIR), main env]"

section \<open>Notions used in the properties\<close>

text \<open>What the three string methods of the export loop make of one text, of one
  cell, of one column.\<close>

definition clean_text :: "pystr \<Rightarrow> pystr" where
  "clean_text s = str_strip (str_replace CR SPACE (str_replace LF SPACE s))"

definition clean_cell :: "cell \<Rightarrow> cell" where
  "clean_cell c = (case c of CStr s \<Rightarrow> CStr (clean_text s) | _ \<Rightarrow> Missing)"

definition cleaned :: "column \<Rightarrow> column" where
  "cleaned c = c\<lparr>cells := map clean_cell (cells c)\<rparr>"

definition clean_named :: "pystr set \<Rightarrow> column \<Rightarrow> column" where
  "clean_named N c = (if cname c \<in> N \<and> dtype c = Object then cleaned c else c)"

text \<open>A line break in a cell: \<^verbatim>\<open>\n\<close> or \<^verbatim>\<open>\r\<close> in its text or in its bytes.\<close>

definition has_linebreak :: "cell \<Rightarrow> bool" where
  "has_linebreak c =
     (case c of
        CStr s \<Rightarrow> LF \<in> set s \<or> CR \<in> set s
      | CBytes b \<Rightarrow> LF \<in> set b \<or> CR \<in> set b
      | _ \<Rightarrow> False)"

text \<open>A text with white space neither at its start nor at its end.\<close>

definition unpadded :: "pystr \<Rightarrow> bool" where
  "unpadded s \<longleftrightarrow> s = [] \<or> (\<not> isspace (hd s) \<and> \<not> isspace (last s))"

text \<open>Projections of a trace: the files written by \<^verbatim>\<open>to_csv\<close>, the statements sent, the
  lines appended to a file, what happened to connections.\<close>

definition csv_writes :: "event list \<Rightarrow> (path \<times> dataframe) list" where
  "csv_writes evs = concat (map (\<lambda>e. case e of ToCsv p df \<Rightarrow> [(p, df)] | _ \<Rightarrow> []) evs)"

definition executed :: "event list \<Rightarrow> pystr list" where
  "executed evs = concat (map (\<lambda>e. case e of Execute sql \<Rightarrow> [sql] | _ \<Rightarrow> []) evs)"

definition appended :: "path \<Rightarrow> event list \<Rightarrow> message list" where
  "appended f evs =
     concat (map (\<lambda>e. case e of Append p m \<Rightarrow> (if p = f then [m] else []) | _ \<Rightarrow> []) evs)"

definition connection_events :: "event list \<Rightarrow> event list" where
  "connection_events evs =
     filter (\<lambda>e. case e of Connect p m \<Rightarrow> True | Close \<Rightarrow> True | _ \<Rightarrow> False) evs"

text \<open>The path of the file written for a table at a reading of the clock.\<close>

definition csv_path :: "env \<Rightarrow> nat \<times> pystr \<Rightarrow> path" where
  "csv_path env = (\<lambda>(i, t). OUTPUT_DIR @ [csv_filename t (strftime_now env i)])"

text \<open>Two of the lines \<^verbatim>\<open>load_data\<close> logs for a table.\<close>

definition shape_line :: "dataframe \<Rightarrow> message" where
  "shape_line df = [Lit ''Shape: '', Shape (nrows df) (length (columns df)), Lit [NL]]"

definition columns_line :: "dataframe \<Rightarrow> message" where
  "columns_line df = [Lit ''Columns: '', Names (map cname (columns df)), Lit [NL], Lit [NL]]"

text \<open>A statement that only reads: a \<^verbatim>\<open>SELECT\<close> or a \<^verbatim>\<open>PRAGMA table_info\<close>.\<close>

definition is_query :: "pystr \<Rightarrow> bool" where
  "is_query sql \<longleftrightarrow>
     is_prefix (ascii ''SELECT '') sql \<or> is_prefix (ascii ''PRAGMA table_info('') sql"

text \<open>Each stage begins by logging its title between two rules; the titles found in
  a trace tell which stages began, and in which order.\<close>

definition stage_titles :: "string list" where
  "stage_titles =
     [''INSPECTING DATABASE STRUCTURE'', ''LOADING DATA INTO PANDAS'',
      ''EXAMPLE QUERIES'', ''EXPORTING DATA TO CSV'']"

definition banner_title :: "event \<Rightarrow> string option" where
  "banner_title e =
     (case e of
        Append p m \<Rightarrow> find (\<lambda>t. m = [Lit t, Lit [NL]]) stage_titles
      | _ \<Rightarrow> None)"

definition stages_begun :: "event list \<Rightarrow> string list" where
  "stages_begun evs =
     concat (map (\<lambda>e. case banner_title e of None \<Rightarrow> [] | Some t \<Rightarrow> [t]) evs)"

text \<open>Events inside a stage: none opens or closes a connection, none is a stage
  title. A stage's trace has the shape: its title between two rules, the connection
  opened, events inside, the connection closed.\<close>

definition inner :: "event \<Rightarrow> bool" where
  "inner e \<longleftrightarrow> banner_title e = None \<and> (\<forall>p m. e \<noteq> Connect p m) \<and> e \<noteq> Close"

definition stage_shape :: "env \<Rightarrow> string \<Rightarrow> event list \<Rightarrow> bool" where
  "stage_shape env title evs \<longleftrightarrow>
     (\<exists>pre mid.
        evs = snd (banner env title) @ pre @ Connect DB_PATH ReadWriteCreate # mid @ [Close] \<and>
        (\<forall>e\<in>set (pre @ mid). inner e))"

text \<open>An event that sends no statement other than a query.\<close>

definition reads :: "event \<Rightarrow> bool" where
  "reads e \<longleftrightarrow> (\<forall>sql. e = Execute sql \<longrightarrow> is_query sql)"

text \<open>What every run does before it looks whether the database file exists: the log
  directory is created at module level, the \<^verbatim>\<open>__main__\<close> block prints three lines.\<close>

definition prelude :: "env \<Rightarrow> event list" where
  "prelude env =
     [Mkdir LOG_DIR,
      Print [Lit (NL # ''Database path: ''), PathP DB_PATH],
      Print [Lit ''Database exists: '', Flag (db_exists env)],
      Print [Lit ''Log file: '', PathP (LOG_FILE env), Lit [NL]]]"

text \<open>The fixed statements of \<^verbatim>\<open>example_queries\<close>, in the order of the source.\<close>

definition example_statements :: "pystr list" where
  "example_statements = [sql_first5, sql_by_year, sql_types, sql_props]"

text \<open>The \<^verbatim>\<open>FROM\<close> clause that names the table of the fixed queries.\<close>

definition from_attacks :: pystr where
  \<open>from_attacks = ascii ''FROM "Automotive Security Attacks"''\<close>

section \<open>Example inputs\<close>

definition stamp0 :: pystr where
  "stamp0 = ascii ''20240101_000000''"

definition no_such_table :: exn where
  "no_such_table = OperationalError (ascii ''no such table'')"

text \<open>A database with one table \<^verbatim>\<open>notes\<close>: an integer column and a text column whose
  values are \<^verbatim>\<open>"a\nb "\<close>, \<^verbatim>\<open>" ok"\<close> and \<^verbatim>\<open>"plain"\<close>; \<open>df_notes_out\<close> is the frame
  the export writes for it.\<close>

definition df_notes :: dataframe where
  "df_notes =
     \<lparr>nrows = 3,
      columns =
        [\<lparr>cname = ascii ''id'', dtype = Int64, cells = [CInt 1, CInt 2, CInt 3]\<rparr>,
         \<lparr>cname = ascii ''body'', dtype = Object,
          cells = [CStr [97, 10, 98, 32], CStr (ascii '' ok''), CStr (ascii ''plain'')]\<rparr>]\<rparr>"

definition df_notes_out :: dataframe where
  "df_notes_out =
     \<lparr>nrows = 3,
      columns =
        [\<lparr>cname = ascii ''id'', dtype = Int64, cells = [CInt 1, CInt 2, CInt 3]\<rparr>,
         \<lparr>cname = ascii ''body'', dtype = Object,
          cells = [CStr [97, 32, 98], CStr (ascii ''ok''), CStr (ascii ''plain'')]\<rparr>]\<rparr>"

definition env_notes :: env where
  "env_notes =
     \<lparr>db_exists = True,
      strftime_now = (\<lambda>k. stamp0),
      sqlite3_connect = None,
      mkdir = (\<lambda>p. None),
      fetch_names = (\<lambda>sql. if sql = sql_table_names then Inr [ascii ''notes''] else Inl no_such_table),
      fetch_columns = (\<lambda>sql. Inr
        [\<lparr>col_id = 0, col_name = ascii ''id'', col_type = ascii ''INTEGER'', not_null = 0,
          default_value = Missing, pk = 1\<rparr>,
         \<lparr>col_id = 1, col_name = ascii ''body'', col_type = ascii ''TEXT'', not_null = 0,
          default_value = Missing, pk = 0\<rparr>]),
      fetch_count = (\<lambda>sql. Inr 3),
      read_sql_query = (\<lambda>sql. if sql = sql_select_all (ascii ''notes'') then Inr df_notes
                              else Inl no_such_table),
      str_accessor = (\<lambda>s. None),
      str_extract = (\<lambda>pat s. Inr s),
      groupby_sum = (\<lambda>key val df. Inr df),
      to_csv = (\<lambda>p df. None)\<rparr>"

definition csv_notes :: path where
  "csv_notes = [ascii ''exports'', ascii ''AAD_notes_20240101_000000.csv'']"

text \<open>A database whose only table is the one the script's fixed queries name.\<close>

definition attacks :: pystr where
  "attacks = ascii ''Automotive Security Attacks''"

definition df_attacks :: dataframe where
  "df_attacks =
     \<lparr>nrows = 1,
      columns =
        [\<lparr>cname = ascii ''Year'', dtype = Object, cells = [CStr (ascii ''2015'')]\<rparr>,
         \<lparr>cname = ascii ''Attack Type'', dtype = Object, cells = [CStr (ascii ''Remote'')]\<rparr>]\<rparr>"

definition df_years :: dataframe where
  "df_years =
     \<lparr>nrows = 1,
      columns =
        [\<lparr>cname = ascii ''Year'', dtype = Object, cells = [CStr (ascii ''2015'')]\<rparr>,
         \<lparr>cname = ascii ''Count'', dtype = Int64, cells = [CInt 1]\<rparr>]\<rparr>"

definition df_counts :: dataframe where
  "df_counts =
     \<lparr>nrows = 1,
      columns =
        [\<lparr>cname = ascii ''Attack Type'', dtype = Object, cells = [CStr (ascii ''Remote'')]\<rparr>,
         \<lparr>cname = ascii ''Count'', dtype = Int64, cells = [CInt 1]\<rparr>]\<rparr>"

definition df_none :: dataframe where
  "df_none =
     \<lparr>nrows = 1,
      columns =
        [\<lparr>cname = ascii ''Violated Security Property'', dtype = Object, cells = [Missing]\<rparr>,
         \<lparr>cname = ascii ''Count'', dtype = Int64, cells = [CInt 1]\<rparr>]\<rparr>"

definition env_attacks :: env where
  "env_attacks =
     \<lparr>db_exists = True,
      strftime_now = (\<lambda>k. stamp0),
      sqlite3_connect = None,
      mkdir = (\<lambda>p. None),
      fetch_names = (\<lambda>sql. if sql = sql_table_names then Inr [attacks] else Inl no_such_table),
      fetch_columns = (\<lambda>sql. Inr
        [\<lparr>col_id = 0, col_name = ascii ''Year'', col_type = ascii ''TEXT'', not_null = 0,
          default_value = Missing, pk = 0\<rparr>,
         \<lparr>col_id = 1, col_name = ascii ''Attack Type'', col_type = ascii ''TEXT'', not_null = 0,
          default_value = Missing, pk = 0\<rparr>]),
      fetch_count = (\<lambda>sql. Inr 1),
      read_sql_query = (\<lambda>sql.
        if sql = sql_select_all attacks \<or> sql = sql_first5 then Inr df_attacks
        else if sql = sql_by_year then Inr df_years
        else if sql = sql_types then Inr df_counts
        else if sql = sql_props then Inr df_none
        else Inl no_such_table),
      str_accessor = (\<lambda>s. None),
      str_extract = (\<lambda>pat s. Inr s),
      groupby_sum = (\<lambda>key val df. Inr df),
      to_csv = (\<lambda>p df. None)\<rparr>"

definition csv_attacks :: pystr where
  "csv_attacks = ascii ''AAD_Automotive_Security_Attacks_20240101_000000.csv''"


text \<open>A file that exists at \<^verbatim>\<open>DB_PATH\<close> and is no SQLite database: the connection opens
  (sqlite3 reads the file lazily), the first statement raises.\<close>

definition not_a_database :: exn where
  "not_a_database = DatabaseError (ascii ''file is not a database'')"

definition env_notdb :: env where
  "env_notdb =
     env_notes
       \<lparr>fetch_names := (\<lambda>sql. Inl not_a_database),
        fetch_columns := (\<lambda>sql. Inl not_a_database),
        fetch_count := (\<lambda>sql. Inl not_a_database),
        read_sql_query := (\<lambda>sql. Inl not_a_database)\<rparr>"

text \<open>The table \<^verbatim>\<open>notes\<close> with a damaged page: the schema and the row count are read,
  reading the rows raises.\<close>

definition malformed :: exn where
  "malformed = DatabaseError (ascii ''database disk image is malformed'')"

definition env_damaged :: env where
  "env_damaged = env_notes\<lparr>read_sql_query := (\<lambda>sql. Inl malformed)\<rparr>"

text \<open>The table \<^verbatim>\<open>notes\<close> again, with a directory \<^verbatim>\<open>exports\<close> that cannot be written.\<close>

definition denied :: exn where
  "denied = OSError (ascii ''Permission denied'')"

definition env_nowrite :: env where
  "env_nowrite = env_notes\<lparr>to_csv := (\<lambda>p df. Some denied)\<rparr>"

text \<open>The table \<^verbatim>\<open>notes\<close> as pandas 3 loads it: the text column has the string dtype,
  not \<^verbatim>\<open>object\<close>.\<close>

definition df_notes_str :: dataframe where
  "df_notes_str =
     \<lparr>nrows = 3,
      columns =
        [\<lparr>cname = ascii ''id'', dtype = Int64, cells = [CInt 1, CInt 2, CInt 3]\<rparr>,
         \<lparr>cname = ascii ''body'', dtype = StringDtype,
          cells = [CStr [97, 10, 98, 32], CStr (ascii '' ok''), CStr (ascii ''plain'')]\<rparr>]\<rparr>"

definition env_str :: env where
  "env_str =
     env_notes
       \<lparr>read_sql_query := (\<lambda>sql. if sql = sql_select_all (ascii ''notes'') then Inr df_notes_str
                                 else Inl no_such_table)\<rparr>"

text \<open>A table \<^verbatim>\<open>mixed\<close> whose one column holds a text, a number and bytes (SQLite types
  values, not columns), so that pandas gives it dtype \<^verbatim>\<open>object\<close>; \<open>df_mixed_out\<close> is the
  frame the export writes for it.\<close>

definition df_mixed :: dataframe where
  "df_mixed =
     \<lparr>nrows = 3,
      columns =
        [\<lparr>cname = ascii ''v'', dtype = Object,
          cells = [CStr (ascii '' ok''), CInt 7, CBytes [66]]\<rparr>]\<rparr>"

definition df_mixed_out :: dataframe where
  "df_mixed_out =
     \<lparr>nrows = 3,
      columns =
        [\<lparr>cname = ascii ''v'', dtype = Object,
          cells = [CStr (ascii ''ok''), Missing, Missing]\<rparr>]\<rparr>"

definition env_mixed :: env where
  "env_mixed =
     env_notes
       \<lparr>fetch_names := (\<lambda>sql. if sql = sql_table_names then Inr [ascii ''mixed'']
                              else Inl no_such_table),
        read_sql_query := (\<lambda>sql. if sql = sql_select_all (ascii ''mixed'') then Inr df_mixed
                                 else Inl no_such_table)\<rparr>"

definition csv_mixed :: path where
  "csv_mixed = [ascii ''exports'', ascii ''AAD_mixed_20240101_000000.csv'']"

text \<open>Two tables, \<^verbatim>\<open>notes\<close> and \<^verbatim>\<open>a b\<close>, with the rows of \<open>df_notes\<close>.\<close>

definition env_two :: env where
  "env_two =
     env_notes
       \<lparr>fetch_names := (\<lambda>sql. if sql = sql_table_names then Inr [ascii ''notes'', ascii ''a b'']
                              else Inl no_such_table),
        read_sql_query := (\<lambda>sql.
          if sql = sql_select_all (ascii ''notes'') \<or> sql = sql_select_all (ascii ''a b'')
          then Inr df_notes else Inl no_such_table)\<rparr>"

definition csv_a_b :: path where
  "csv_a_b = [ascii ''exports'', ascii ''AAD_a_b_20240101_000000.csv'']"

text \<open>Two tables whose names differ only in a space and an underscore, exported within
  one second.\<close>

definition env_collide :: env where
  "env_collide =
     env_notes
       \<lparr>fetch_names := (\<lambda>sql. if sql = sql_table_names then Inr [ascii ''a b'', ascii ''a_b'']
                              else Inl no_such_table),
        read_sql_query := (\<lambda>sql.
          if sql = sql_select_all (ascii ''a b'') \<or> sql = sql_select_all (ascii ''a_b'')
          then Inr df_notes else Inl no_such_table)\<rparr>"

text \<open>The table \<^verbatim>\<open>notes\<close> again, with a regular file named \<^verbatim>\<open>exports\<close> where the output
  directory should be.\<close>

definition file_exists :: exn where
  "file_exists = FileExistsError (ascii ''File exists'')"

definition env_blocked :: env where
  "env_blocked =
     env_notes\<lparr>mkdir := (\<lambda>p. if p = OUTPUT_DIR then Some file_exists else None)\<rparr>"

text \<open>A database file that cannot be opened.\<close>

definition unable_to_open :: exn where
  "unable_to_open = OperationalError (ascii ''unable to open database file'')"

definition env_unopenable :: env where
  "env_unopenable = env_notes\<lparr>sqlite3_connect := Some unable_to_open\<rparr>"

section \<open>Properties\<close>

subsection \<open>Runs\<close>

lemma fst_and_then:
  "fst (and_then m f) = (case fst m of Inl e \<Rightarrow> Inl e | Inr x \<Rightarrow> fst (f x))"
  by (auto simp: and_then_def split: prod.splits sum.splits)

lemma snd_and_then:
  "snd (and_then m f) = (case fst m of Inl e \<Rightarrow> snd m | Inr x \<Rightarrow> snd m @ snd (f x))"
  by (auto simp: and_then_def split: prod.splits sum.splits)

lemma run_simps [simp]:
  "fst (ret x) = Inr x" "snd (ret x) = []"
  "fst (lift r) = r" "snd (lift r) = []"
  "fst (emit e) = Inr ()" "snd (emit e) = [e]"
  by (simp_all add: ret_def lift_def emit_def)

subsection \<open>Text\<close>

lemma str_replace_absent: "old \<notin> set s \<Longrightarrow> str_replace old new s = s"
  unfolding str_replace_def by (induction s) auto

lemma str_replace_gone: "old \<noteq> new \<Longrightarrow> old \<notin> set (str_replace old new s)"
  unfolding str_replace_def by (induction s) auto

lemma str_replace_keeps: "c \<notin> set s \<Longrightarrow> c \<noteq> new \<Longrightarrow> c \<notin> set (str_replace old new s)"
  unfolding str_replace_def by (induction s) auto

lemma set_str_strip: "set (str_strip s) \<subseteq> set s"
  unfolding str_strip_def
  by (metis set_dropWhileD set_rev subsetI)

lemma dropWhile_unchanged: "xs = [] \<or> \<not> P (hd xs) \<Longrightarrow> dropWhile P xs = xs"
  by (cases xs) auto

lemma str_strip_idem: "str_strip (str_strip s) = str_strip s"
proof -
  define v where "v = dropWhile isspace s"
  define w where "w = dropWhile isspace (rev v)"
  have v: "v = rev w @ rev (takeWhile isspace (rev v))"
    by (metis w_def rev_append rev_rev_ident takeWhile_dropWhile_id)
  have "rev w = [] \<or> \<not> isspace (hd (rev w))"
  proof (cases "rev w")
    case Nil
    then show ?thesis by simp
  next
    case (Cons a as)
    then have "hd v = a" "v \<noteq> []"
      using v by (metis hd_append2 list.sel(1) list.distinct(1),
                  metis append_is_Nil_conv list.distinct(1))
    then show ?thesis
      using Cons hd_dropWhile [of isspace s] by (simp add: v_def)
  qed
  then have "dropWhile isspace (rev w) = rev w"
    by (rule dropWhile_unchanged)
  then show ?thesis
    by (simp add: str_strip_def v_def [symmetric] w_def [symmetric]) (simp add: w_def)
qed

lemma str_strip_unpadded:
  assumes "s = [] \<or> (\<not> isspace (hd s) \<and> \<not> isspace (last s))"
  shows "str_strip s = s"
proof (cases "s = []")
  case True
  then show ?thesis by (simp add: str_strip_def)
next
  case False
  with assms have h: "\<not> isspace (hd s)" and l: "\<not> isspace (last s)" by auto
  have 1: "dropWhile isspace s = s" using h by (simp add: dropWhile_unchanged)
  have 2: "dropWhile isspace (rev s) = rev s" using l False
    by (intro dropWhile_unchanged) (simp add: hd_rev)
  show ?thesis by (simp add: str_strip_def 1 2)
qed

subsection \<open>The cleaning of a column\<close>

lemma str_method_Inr:
  "fst (str_method env f s) = Inr s' \<Longrightarrow>
   s' = s\<lparr>dtype := Object, cells := map (str_apply f) (cells s)\<rparr>"
  by (auto simp: str_method_def split: option.splits)

lemma clean_cell_str_apply:
  "str_apply str_strip (str_apply (str_replace CR SPACE) (str_apply (str_replace LF SPACE) c))
   = clean_cell c"
  by (cases c) (simp_all add: clean_cell_def clean_text_def)

lemma clean_series_Inr:
  assumes "fst (clean_series env s) = Inr s'"
  shows "s' = s\<lparr>dtype := Object, cells := map clean_cell (cells s)\<rparr>"
proof -
  from assms obtain s1 s2 where
    1: "fst (str_method env (str_replace LF SPACE) s) = Inr s1" and
    2: "fst (str_method env (str_replace CR SPACE) s1) = Inr s2" and
    3: "fst (str_method env str_strip s2) = Inr s'"
    by (auto simp: clean_series_def fst_and_then split: sum.splits)
  show ?thesis
    using str_method_Inr [OF 1] str_method_Inr [OF 2] str_method_Inr [OF 3]
    by (simp add: clean_cell_str_apply)
qed

lemma clean_text_free: "LF \<notin> set (clean_text s) \<and> CR \<notin> set (clean_text s)"
proof -
  let ?u = "str_replace CR SPACE (str_replace LF SPACE s)"
  have "LF \<notin> set ?u"
    by (intro str_replace_keeps str_replace_gone) (simp_all add: LF_def SPACE_def)
  moreover have "CR \<notin> set ?u"
    by (intro str_replace_gone) (simp add: CR_def SPACE_def)
  ultimately show ?thesis
    using set_str_strip [of ?u] by (auto simp: clean_text_def)
qed

lemma clean_text_idem: "clean_text (clean_text s) = clean_text s"
proof -
  have "str_replace CR SPACE (str_replace LF SPACE (clean_text s)) = clean_text s"
    using clean_text_free [of s] by (simp add: str_replace_absent)
  then show ?thesis
    by (simp add: clean_text_def [of "clean_text s"]) (simp add: clean_text_def str_strip_idem)
qed

lemma clean_cell_idem: "clean_cell (clean_cell c) = clean_cell c"
  by (cases c) (simp_all add: clean_cell_def clean_text_idem)

lemma cleaned_idem: "cleaned (cleaned c) = cleaned c"
  by (simp add: cleaned_def clean_cell_idem)

lemma cleaned_fields [simp]: "cname (cleaned c) = cname c" "dtype (cleaned c) = dtype c"
  by (simp_all add: cleaned_def)

lemma getitem_Inr:
  "getitem df key a = Inr s \<Longrightarrow> filter (\<lambda>c. cname c = key) (columns df) = [s]"
  by (auto simp: getitem_def split: list.splits)

lemma getitem_unique:
  assumes "getitem df key a = Inr s"
  shows "cname s = key" and "\<And>x. x \<in> set (columns df) \<Longrightarrow> cname x = key \<Longrightarrow> x = s"
proof -
  have f: "filter (\<lambda>c. cname c = key) (columns df) = [s]" using assms by (rule getitem_Inr)
  then have "s \<in> set (filter (\<lambda>c. cname c = key) (columns df))" by simp
  then show "cname s = key" by simp
  fix x assume "x \<in> set (columns df)" "cname x = key"
  then have "x \<in> set (filter (\<lambda>c. cname c = key) (columns df))" by simp
  then show "x = s" by (simp add: f)
qed

lemma clean_columns_Inr:
  "fst (clean_columns env cs df) = Inr out \<Longrightarrow>
   out = df\<lparr>columns := map (clean_named (set cs)) (columns df)\<rparr>"
proof (induction cs arbitrary: df)
  case Nil
  then show ?case by (simp add: clean_named_def)
next
  case (Cons c rest)
  from Cons.prems obtain s where g: "getitem df c ''dtype'' = Inr s"
    by (auto simp: fst_and_then split: sum.splits)
  note u = getitem_unique [OF g]
  show ?case
  proof (cases "dtype s = Object")
    case False
    with Cons.prems g have "fst (clean_columns env rest df) = Inr out"
      by (simp add: fst_and_then)
    then have "out = df\<lparr>columns := map (clean_named (set rest)) (columns df)\<rparr>"
      by (rule Cons.IH)
    moreover have "map (clean_named (set rest)) (columns df) = map (clean_named (set (c # rest))) (columns df)"
      using u False by (auto simp: clean_named_def)
    ultimately show ?thesis by simp
  next
    case True
    with Cons.prems g obtain s' where
      s': "fst (clean_series env s) = Inr s'" and
      r: "fst (clean_columns env rest (setitem df c s')) = Inr out"
      by (auto simp: fst_and_then split: sum.splits)
    have "s' = cleaned s"
      using clean_series_Inr [OF s'] True by (simp add: cleaned_def)
    have "s \<in> set (filter (\<lambda>x. cname x = c) (columns df))"
      by (simp add: getitem_Inr [OF g])
    then have "c \<in> set (map cname (columns df))"
      by auto
    then have cols: "columns (setitem df c s') = map (\<lambda>x. if cname x = c then cleaned x else x) (columns df)"
      using u \<open>s' = cleaned s\<close> by (auto simp: setitem_def cleaned_def)
    have "out = (setitem df c s')\<lparr>columns := map (clean_named (set rest)) (columns (setitem df c s'))\<rparr>"
      using r by (rule Cons.IH)
    moreover have "map (clean_named (set rest)) (columns (setitem df c s')) = map (clean_named (set (c # rest))) (columns df)"
      using u True by (auto simp: cols clean_named_def cleaned_idem)
    ultimately show ?thesis by (simp add: setitem_def)
  qed
qed

subsection \<open>Traces of the export stage\<close>

lemma csv_writes_simps [simp]:
  "csv_writes [] = []"
  "csv_writes (a @ b) = csv_writes a @ csv_writes b"
  "csv_writes (ToCsv p df # evs) = (p, df) # csv_writes evs"
  "csv_writes (Mkdir q # evs) = csv_writes evs"
  "csv_writes (Append q m # evs) = csv_writes evs"
  "csv_writes (Print m # evs) = csv_writes evs"
  "csv_writes (Connect q mode # evs) = csv_writes evs"
  "csv_writes (Execute sql # evs) = csv_writes evs"
  "csv_writes (Close # evs) = csv_writes evs"
  by (simp_all add: csv_writes_def)

lemma fst_log [simp]: "fst (log_output env m b) = Inr ()"
  by (simp add: log_output_def fst_and_then)

lemma snd_log [simp]: "snd (log env m) = [Append (LOG_FILE env) (m @ [Lit [NL]])]"
  by (simp add: log_output_def snd_and_then)

lemma fst_print [simp]: "fst (print m) = Inr ()"
  by (simp add: print_def)

lemma snd_print [simp]: "snd (print m) = [Print m]"
  by (simp add: print_def)

lemma fst_banner [simp]: "fst (banner env t) = Inr ()"
  by (simp add: banner_def fst_and_then)

lemma snd_banner [simp]:
  "snd (banner env t) =
     [Append (LOG_FILE env) [Lit rule60, Lit [NL]],
      Append (LOG_FILE env) [Lit t, Lit [NL]],
      Append (LOG_FILE env) [Lit rule60, Lit [NL]]]"
  by (simp add: banner_def snd_and_then)

lemma close_simps [simp]:
  "fst close = Inr ()" "snd close = [Close]"
  by (simp_all add: close_def)

lemma connect_None [simp]:
  "sqlite3_connect env = None \<Longrightarrow> connect env = (Inr (), [Connect DB_PATH ReadWriteCreate])"
  by (simp add: connect_def emit_def)

lemma connect_Some [simp]:
  "sqlite3_connect env = Some e \<Longrightarrow> connect env = (Inl e, [])"
  by (simp add: connect_def lift_def)

lemma path_mkdir_None [simp]:
  "mkdir env p = None \<Longrightarrow> path_mkdir env p = (Inr (), [Mkdir p])"
  by (simp add: path_mkdir_def emit_def)

lemma path_mkdir_Some [simp]:
  "mkdir env p = Some e \<Longrightarrow> path_mkdir env p = (Inl e, [])"
  by (simp add: path_mkdir_def lift_def)

lemma fst_execute_fetch [simp]: "fst (execute_fetch answer sql) = answer sql"
  by (simp add: execute_fetch_def fst_and_then)

lemma snd_execute_fetch [simp]: "snd (execute_fetch answer sql) = [Execute sql]"
  by (simp add: execute_fetch_def snd_and_then)

lemma str_method_no_events [simp]: "snd (str_method env f s) = []"
  by (simp add: str_method_def split: option.splits)

lemma clean_series_no_events [simp]: "snd (clean_series env s) = []"
  by (simp add: clean_series_def snd_and_then split: sum.splits)

lemma clean_columns_no_events [simp]: "snd (clean_columns env cs df) = []"
  by (induction cs arbitrary: df) (simp_all add: snd_and_then split: sum.splits)

lemma export_table_ok:
  assumes "fst (export_table env k t) = Inr ()"
  shows "\<exists>df out. read_sql_query env (sql_select_all t) = Inr df \<and>
           fst (clean_columns env (map cname (columns df)) df) = Inr out \<and>
           csv_writes (snd (export_table env k t)) =
             [(OUTPUT_DIR @ [csv_filename t (strftime_now env k)], out)]"
  using assms
  by (auto simp: export_table_def df_to_csv_def fst_and_then snd_and_then
           split: sum.splits option.splits)

lemma export_table_failed:
  assumes "fst (export_table env k t) \<noteq> Inr ()"
  shows "csv_writes (snd (export_table env k t)) = []"
  using assms
  by (auto simp: export_table_def df_to_csv_def fst_and_then snd_and_then
           split: sum.splits option.splits)

lemma export_tables_member:
  "(p, out) \<in> set (csv_writes (snd (export_tables env k ts))) \<Longrightarrow>
   \<exists>t df. t \<in> set ts \<and> read_sql_query env (sql_select_all t) = Inr df \<and>
          fst (clean_columns env (map cname (columns df)) df) = Inr out"
proof (induction ts arbitrary: k)
  case Nil
  then show ?case by simp
next
  case (Cons t ts)
  show ?case
  proof (cases "fst (export_table env k t) = Inr ()")
    case True
    from export_table_ok [OF True] obtain df o1 where
      df: "read_sql_query env (sql_select_all t) = Inr df"
          "fst (clean_columns env (map cname (columns df)) df) = Inr o1"
          "csv_writes (snd (export_table env k t)) = [(csv_path env (k, t), o1)]"
      by (auto simp: csv_path_def)
    from Cons.prems True df(3)
    consider "out = o1" | "(p, out) \<in> set (csv_writes (snd (export_tables env (Suc k) ts)))"
      by (auto simp: snd_and_then)
    then show ?thesis
    proof cases
      case 1
      with df show ?thesis by auto
    next
      case 2
      from Cons.IH [OF 2] show ?thesis by auto
    qed
  next
    case False
    then obtain e where "fst (export_table env k t) = Inl e"
      by (cases "fst (export_table env k t)") auto
    with Cons.prems export_table_failed [OF False] show ?thesis
      by (simp add: snd_and_then)
  qed
qed

lemma export_tables_ok:
  "fst (export_tables env k ts) = Inr () \<Longrightarrow>
   map fst (csv_writes (snd (export_tables env k ts))) =
     map (csv_path env) (zip [k ..< k + length ts] ts)"
proof (induction ts arbitrary: k)
  case Nil
  then show ?case by simp
next
  case (Cons t ts)
  from Cons.prems have ok: "fst (export_table env k t) = Inr ()"
    and rest: "fst (export_tables env (Suc k) ts) = Inr ()"
    by (auto simp: fst_and_then split: sum.splits)
  from export_table_ok [OF ok] obtain o1 where
    w: "csv_writes (snd (export_table env k t)) = [(csv_path env (k, t), o1)]"
    by (auto simp: csv_path_def)
  have "[k ..< k + length (t # ts)] = k # [Suc k ..< Suc k + length ts]"
    by (simp add: upt_rec)
  then show ?case
    using Cons.IH [OF rest] ok w by (simp add: snd_and_then)
qed

lemma fst_try_except:
  "fst (try_except body h) = (case fst body of Inl e \<Rightarrow> fst (h e) | Inr x \<Rightarrow> Inr x)"
  by (auto simp: try_except_def split: prod.splits sum.splits)

lemma snd_try_except:
  "snd (try_except body h) =
     (case fst body of Inl e \<Rightarrow> snd body @ snd (h e) | Inr x \<Rightarrow> snd body)"
  by (auto simp: try_except_def split: prod.splits sum.splits)

lemma export_to_csv_try_writes:
  "csv_writes (snd (export_to_csv_try env k)) =
     (case fetch_names env sql_table_names of
        Inl e \<Rightarrow> []
      | Inr ts \<Rightarrow> csv_writes (snd (export_tables env k ts)))"
  by (simp add: export_to_csv_try_def fst_and_then snd_and_then split: sum.splits)

lemma export_to_csv_writes:
  "csv_writes (snd (export_to_csv env k)) =
     (if mkdir env OUTPUT_DIR = None \<and> sqlite3_connect env = None
      then csv_writes (snd (export_to_csv_try env k)) else [])"
proof (cases "mkdir env OUTPUT_DIR")
  case (Some e)
  then show ?thesis by (simp add: export_to_csv_def snd_and_then fst_and_then)
next
  case None
  show ?thesis
  proof (cases "sqlite3_connect env")
    case (Some e)
    with None show ?thesis by (simp add: export_to_csv_def snd_and_then fst_and_then)
  next
    case c: None
    with None show ?thesis
      by (simp add: export_to_csv_def fst_try_except snd_try_except fst_and_then snd_and_then
            split: sum.splits)
  qed
qed

lemma export_written_frame:
  assumes "(p, out) \<in> set (csv_writes (snd (export_to_csv env k)))"
  shows "\<exists>tables t df. fetch_names env sql_table_names = Inr tables \<and> t \<in> set tables \<and>
           read_sql_query env (sql_select_all t) = Inr df \<and>
           out = df\<lparr>columns := map (\<lambda>c. if dtype c = Object then cleaned c else c) (columns df)\<rparr>"
proof -
  from assms obtain tables where
    n: "fetch_names env sql_table_names = Inr tables" and
    m: "(p, out) \<in> set (csv_writes (snd (export_tables env k tables)))"
    by (cases "fetch_names env sql_table_names")
       (auto simp: export_to_csv_writes export_to_csv_try_writes split: if_splits)
  from export_tables_member [OF m] obtain t df where
    t: "t \<in> set tables" and df: "read_sql_query env (sql_select_all t) = Inr df" and
    c: "fst (clean_columns env (map cname (columns df)) df) = Inr out"
    by blast
  have "map (clean_named (set (map cname (columns df)))) (columns df) =
        map (\<lambda>c. if dtype c = Object then cleaned c else c) (columns df)"
    by (simp add: clean_named_def)
  with clean_columns_Inr [OF c] n t df show ?thesis by auto
qed

lemma notes_run:
  "csv_writes (snd (export_to_csv env_notes 1)) = [(csv_notes, df_notes_out)]"
  by (simp add: export_to_csv_def export_to_csv_try_def export_table_def df_to_csv_def
      fst_and_then snd_and_then fst_try_except snd_try_except env_notes_def
      getitem_def setitem_def clean_series_def str_method_def df_notes_def df_notes_out_def
      csv_notes_def csv_filename_def OUTPUT_DIR_def stamp0_def ascii_def str_replace_def
      str_strip_def isspace_def LF_def CR_def SPACE_def UNDERSCORE_def
      sql_select_all_def sql_table_names_def)

lemma clean_cell_no_linebreak: "\<not> has_linebreak (clean_cell c)"
  using clean_text_free by (cases c) (simp_all add: clean_cell_def has_linebreak_def)

lemma clean_cell_keeps:
  "LF \<notin> set s \<Longrightarrow> CR \<notin> set s \<Longrightarrow> unpadded s \<Longrightarrow> clean_cell (CStr s) = CStr s"
  by (simp add: clean_cell_def clean_text_def str_replace_absent str_strip_unpadded unpadded_def)


lemma export_to_csv_try_ok:
  assumes "fst (export_to_csv_try env k) = Inr ()"
  shows "\<exists>tables. fetch_names env sql_table_names = Inr tables \<and>
           fst (export_tables env k tables) = Inr ()"
  using assms
  by (auto simp: export_to_csv_try_def fst_and_then split: sum.splits)

lemmas run_defs =
  export_to_csv_def export_to_csv_try_def export_table_def df_to_csv_def
  connect_def path_mkdir_def
  fst_and_then snd_and_then fst_try_except snd_try_except
  getitem_def setitem_def clean_series_def str_method_def
  csv_filename_def OUTPUT_DIR_def stamp0_def ascii_def str_replace_def
  str_strip_def isspace_def LF_def CR_def SPACE_def UNDERSCORE_def
  sql_select_all_def sql_table_names_def

lemma attacks_try: "fst (export_to_csv_try env_attacks 1) = Inr ()"
  by (simp add: run_defs env_attacks_def df_attacks_def attacks_def sql_first5_def)

lemma attacks_run:
  "map fst (csv_writes (snd (export_to_csv env_attacks 1))) = [[ascii ''exports'', csv_attacks]]"
  by (simp add: run_defs env_attacks_def df_attacks_def attacks_def sql_first5_def csv_attacks_def)

lemma attacks_name: "\<not> str_contains attacks csv_attacks"
  by (simp add: attacks_def csv_attacks_def ascii_def)

subsection \<open>Traces of the load stage\<close>

lemma load_table_Inr:
  assumes "fst (load_table env t) = Inr df"
  shows "read_sql_query env (sql_select_all t) = Inr df"
    and "Append (LOG_FILE env) (shape_line df) \<in> set (snd (load_table env t))"
    and "Append (LOG_FILE env) (columns_line df) \<in> set (snd (load_table env t))"
  using assms
  by (auto simp: load_table_def fst_and_then snd_and_then shape_line_def columns_line_def
           split: sum.splits)

lemma load_tables_Inr:
  "fst (load_tables env ts d) = Inr m \<Longrightarrow>
   dom m = dom d \<union> set ts \<and>
   (\<forall>t\<in>set ts. \<exists>df. m t = Some df \<and> read_sql_query env (sql_select_all t) = Inr df \<and>
       Append (LOG_FILE env) (shape_line df) \<in> set (snd (load_tables env ts d)) \<and>
       Append (LOG_FILE env) (columns_line df) \<in> set (snd (load_tables env ts d))) \<and>
   (\<forall>t. t \<notin> set ts \<longrightarrow> m t = d t)"
proof (induction ts arbitrary: d)
  case Nil
  then show ?case by simp
next
  case (Cons t ts)
  from Cons.prems obtain df where
    df: "fst (load_table env t) = Inr df" and
    r: "fst (load_tables env ts (d(t \<mapsto> df))) = Inr m"
    by (auto simp: fst_and_then split: sum.splits)
  note h = load_table_Inr [OF df]
  note ih = Cons.IH [OF r]
  have ev: "snd (load_tables env (t # ts) d) =
            snd (load_table env t) @ snd (load_tables env ts (d(t \<mapsto> df)))"
    using df by (simp add: snd_and_then)
  have 1: "dom m = dom d \<union> set (t # ts)"
    using ih by auto
  have 3: "\<forall>u. u \<notin> set (t # ts) \<longrightarrow> m u = d u"
    using ih by auto
  have 2: "\<exists>df'. m u = Some df' \<and> read_sql_query env (sql_select_all u) = Inr df' \<and>
       Append (LOG_FILE env) (shape_line df') \<in> set (snd (load_tables env (t # ts) d)) \<and>
       Append (LOG_FILE env) (columns_line df') \<in> set (snd (load_tables env (t # ts) d))"
    if u: "u \<in> set (t # ts)" for u
  proof (cases "u \<in> set ts")
    case True
    with ih obtain df' where
      "m u = Some df'" "read_sql_query env (sql_select_all u) = Inr df'"
      "Append (LOG_FILE env) (shape_line df') \<in> set (snd (load_tables env ts (d(t \<mapsto> df))))"
      "Append (LOG_FILE env) (columns_line df') \<in> set (snd (load_tables env ts (d(t \<mapsto> df))))"
      by blast
    then show ?thesis unfolding ev by (intro exI [of _ df']) simp
  next
    case False
    with u have "u = t" by simp
    moreover from False ih \<open>u = t\<close> have "m t = Some df" by simp
    ultimately show ?thesis using h unfolding ev by (intro exI [of _ df]) simp
  qed
  from 1 2 3 show ?case by blast
qed

subsection \<open>Projections of traces\<close>

lemma executed_simps [simp]:
  "executed [] = []"
  "executed (a @ b) = executed a @ executed b"
  "executed (Execute sql # evs) = sql # executed evs"
  "executed (Mkdir q # evs) = executed evs"
  "executed (Append q m # evs) = executed evs"
  "executed (Print m # evs) = executed evs"
  "executed (Connect q mode # evs) = executed evs"
  "executed (ToCsv p df # evs) = executed evs"
  "executed (Close # evs) = executed evs"
  by (simp_all add: executed_def)

lemma appended_simps [simp]:
  "appended f [] = []"
  "appended f (a @ b) = appended f a @ appended f b"
  "appended f (Append q m # evs) = (if q = f then m # appended f evs else appended f evs)"
  "appended f (Mkdir q # evs) = appended f evs"
  "appended f (Execute sql # evs) = appended f evs"
  "appended f (Print m # evs) = appended f evs"
  "appended f (Connect q mode # evs) = appended f evs"
  "appended f (ToCsv p df # evs) = appended f evs"
  "appended f (Close # evs) = appended f evs"
  by (simp_all add: appended_def)

lemma connection_events_simps [simp]:
  "connection_events [] = []"
  "connection_events (a @ b) = connection_events a @ connection_events b"
  "connection_events (Connect q mode # evs) = Connect q mode # connection_events evs"
  "connection_events (Close # evs) = Close # connection_events evs"
  "connection_events (Append q m # evs) = connection_events evs"
  "connection_events (Mkdir q # evs) = connection_events evs"
  "connection_events (Execute sql # evs) = connection_events evs"
  "connection_events (Print m # evs) = connection_events evs"
  "connection_events (ToCsv p df # evs) = connection_events evs"
  by (simp_all add: connection_events_def)


subsection \<open>Events inside the stages\<close>

lemma in_and_then:
  "e \<in> set (snd (and_then m f)) \<Longrightarrow>
   e \<in> set (snd m) \<or> (\<exists>x. fst m = Inr x \<and> e \<in> set (snd (f x)))"
  by (auto simp: snd_and_then split: sum.splits)

lemma in_seq_all:
  "e \<in> set (snd (seq_all ms)) \<Longrightarrow> \<exists>m\<in>set ms. e \<in> set (snd m)"
  by (induction ms) (auto dest!: in_and_then)

lemma in_seq_all_map:
  "e \<in> set (snd (seq_all (map f xs))) \<Longrightarrow> \<exists>x\<in>set xs. e \<in> set (snd (f x))"
  by (induction xs) (auto dest!: in_and_then)

lemma not_titles [simp]:
  "rule60 \<notin> set stage_titles"
  "replicate 40 CHR ''-'' \<notin> set stage_titles"
  "[] \<notin> set stage_titles"
  "NL # s \<notin> set stage_titles"
  "''Attacks by Year:'' \<notin> set stage_titles"
  "''Top 10 Attack Types:'' \<notin> set stage_titles"
  "''Security Properties Violated:'' \<notin> set stage_titles"
  by (auto simp: stage_titles_def rule60_def dest!: arg_cong [where f = length])

lemma banner_title_other:
  "\<forall>t\<in>set stage_titles. m \<noteq> [Lit t, Lit [NL]] \<Longrightarrow> banner_title (Append p m) = None"
  by (simp add: banner_title_def find_None_iff)

lemma inner_simps [simp]:
  "inner (Execute sql)" "inner (ToCsv p df)" "inner (Print m)" "inner (Mkdir p)"
  "\<not> inner (Connect p mode)" "\<not> inner Close"
  "inner (Append p [a, b, c])" "inner (Append p (a # b # c # d # ms))"
  "t \<notin> set stage_titles \<Longrightarrow> inner (Append p [Lit t, x])"
  "inner (Append p [Frame df, x])" "inner (Append p [FrameNoIndex df, x])"
  by (auto simp: inner_def banner_title_other) (simp_all add: banner_title_def)

lemma inspect_table_inner: "e \<in> set (snd (inspect_table env t)) \<Longrightarrow> inner e"
  by (auto simp: inspect_table_def snd_and_then
           dest!: in_seq_all_map split: sum.splits)

lemma inner_seq_all:
  "(\<And>m e. m \<in> set ms \<Longrightarrow> e \<in> set (snd m) \<Longrightarrow> inner e) \<Longrightarrow>
   e \<in> set (snd (seq_all ms)) \<Longrightarrow> inner e"
  by (auto dest!: in_seq_all)

lemma load_table_inner: "e \<in> set (snd (load_table env t)) \<Longrightarrow> inner e"
  by (auto simp: load_table_def snd_and_then split: sum.splits)

lemma load_tables_inner: "e \<in> set (snd (load_tables env ts d)) \<Longrightarrow> inner e"
  by (induction ts arbitrary: d) (auto dest!: in_and_then dest: load_table_inner)

lemma export_table_inner: "e \<in> set (snd (export_table env k t)) \<Longrightarrow> inner e"
  by (auto simp: export_table_def df_to_csv_def snd_and_then emit_def lift_def
           split: sum.splits option.splits)

lemma export_tables_inner: "e \<in> set (snd (export_tables env k ts)) \<Longrightarrow> inner e"
  by (induction ts arbitrary: k) (auto dest!: in_and_then dest: export_table_inner)

lemma export_to_csv_try_inner: "e \<in> set (snd (export_to_csv_try env k)) \<Longrightarrow> inner e"
  by (auto simp: export_to_csv_try_def snd_and_then dest: export_tables_inner split: sum.splits)

lemma example_queries_try_inner: "e \<in> set (snd (example_queries_try env)) \<Longrightarrow> inner e"
  by (auto simp: example_queries_try_def snd_and_then fst_and_then split: sum.splits)

subsection \<open>The shape of a stage's trace\<close>

lemma stages_begun_simps [simp]:
  "stages_begun [] = []"
  "stages_begun (a @ b) = stages_begun a @ stages_begun b"
  by (simp_all add: stages_begun_def)

lemma stages_begun_Cons:
  "stages_begun (e # evs) =
     (case banner_title e of None \<Rightarrow> stages_begun evs | Some t \<Rightarrow> t # stages_begun evs)"
  by (simp add: stages_begun_def split: option.splits)

lemma inner_projections:
  "\<forall>e\<in>set evs. inner e \<Longrightarrow> connection_events evs = [] \<and> stages_begun evs = []"
proof (induction evs)
  case Nil
  then show ?case by simp
next
  case (Cons e evs)
  then have "inner e" and ih: "connection_events evs = []" "stages_begun evs = []" by simp_all
  from \<open>inner e\<close> have "banner_title e = None" "connection_events [e] = []"
    by (cases e; simp add: inner_def connection_events_def)+
  with ih show ?case
    using connection_events_simps(2) [of "[e]" evs] by (simp add: stages_begun_Cons)
qed

lemma banner_title_rule [simp]: "banner_title (Append p [Lit rule60, Lit [NL]]) = None"
  using not_titles(1) by (intro banner_title_other) auto

lemma banner_title_stage:
  "t \<in> set stage_titles \<Longrightarrow> banner_title (Append p [Lit t, Lit [NL]]) = Some t"
  by (auto simp: banner_title_def stage_titles_def)

lemma banner_projections:
  "connection_events (snd (banner env t)) = []"
  "t \<in> set stage_titles \<Longrightarrow> stages_begun (snd (banner env t)) = [t]"
  by (simp_all add: stages_begun_Cons banner_title_stage)

lemma stage_shape_projections:
  assumes "stage_shape env t evs" and "t \<in> set stage_titles"
  shows "connection_events evs = [Connect DB_PATH ReadWriteCreate, Close]"
    and "stages_begun evs = [t]"
    and "last evs = Close"
proof -
  from assms(1) obtain pre mid where
    evs: "evs = snd (banner env t) @ pre @ Connect DB_PATH ReadWriteCreate # mid @ [Close]" and
    i: "\<forall>e\<in>set (pre @ mid). inner e"
    unfolding stage_shape_def by blast
  from i have "\<forall>e\<in>set pre. inner e" "\<forall>e\<in>set mid. inner e" by auto
  then have p: "connection_events pre = []" "stages_begun pre = []"
    "connection_events mid = []" "stages_begun mid = []"
    using inner_projections by blast+
  show "connection_events evs = [Connect DB_PATH ReadWriteCreate, Close]"
    unfolding evs using p by (simp add: banner_projections del: snd_banner)
  show "stages_begun evs = [t]"
    unfolding evs using p assms(2)
    by (simp add: banner_projections stages_begun_Cons banner_title_def del: snd_banner)
  show "last evs = Close" unfolding evs by simp
qed

lemma inspect_database_connected:
  assumes "fst (inspect_database env) = Inr ()"
  shows "sqlite3_connect env = None"
  using assms
  by (cases "sqlite3_connect env") (simp_all add: inspect_database_def fst_and_then)

lemma load_data_connected:
  assumes "fst (load_data env) = Inr d"
  shows "sqlite3_connect env = None"
  using assms
  by (cases "sqlite3_connect env") (simp_all add: load_data_def fst_and_then)

lemma inspect_database_shape:
  assumes "fst (inspect_database env) = Inr ()"
  shows "stage_shape env ''INSPECTING DATABASE STRUCTURE'' (snd (inspect_database env))"
proof -
  note c = inspect_database_connected [OF assms]
  from assms c obtain tables where n: "fetch_names env sql_table_names = Inr tables"
    and ok: "fst (seq_all (map (inspect_table env) tables)) = Inr ()"
    by (auto simp: inspect_database_def fst_and_then split: sum.splits)
  let ?mid = "Execute sql_table_names #
     Append (LOG_FILE env) [Lit (NL # ''Found ''), Num (int (length tables)),
        Lit ('' table(s):'' @ [NL]), Lit [NL]] #
     snd (seq_all (map (inspect_table env) tables))"
  have "snd (inspect_database env) =
        snd (banner env ''INSPECTING DATABASE STRUCTURE'') @ [] @
        Connect DB_PATH ReadWriteCreate # ?mid @ [Close]"
    using n ok c by (simp add: inspect_database_def snd_and_then fst_and_then)
  moreover have "\<forall>e\<in>set ([] @ ?mid). inner e"
    by (auto dest!: in_seq_all_map dest: inspect_table_inner)
  ultimately show ?thesis unfolding stage_shape_def by blast
qed

lemma load_data_shape:
  assumes "fst (load_data env) = Inr d"
  shows "stage_shape env ''LOADING DATA INTO PANDAS'' (snd (load_data env))"
proof -
  note c = load_data_connected [OF assms]
  from assms c obtain tables where n: "fetch_names env sql_table_names = Inr tables"
    and ok: "fst (load_tables env tables Map.empty) = Inr d"
    by (auto simp: load_data_def fst_and_then split: sum.splits)
  let ?mid = "Execute sql_table_names # snd (load_tables env tables Map.empty)"
  have "snd (load_data env) =
        snd (banner env ''LOADING DATA INTO PANDAS'') @ [] @
        Connect DB_PATH ReadWriteCreate # ?mid @ [Close]"
    using n ok c by (simp add: load_data_def snd_and_then fst_and_then)
  moreover have "\<forall>e\<in>set ([] @ ?mid). inner e"
    by (auto dest: load_tables_inner)
  ultimately show ?thesis unfolding stage_shape_def by blast
qed

lemma example_queries_unconnected:
  assumes "sqlite3_connect env = Some e"
  shows "example_queries env = (Inl e, snd (banner env ''EXAMPLE QUERIES''))"
  using assms
  by (simp add: example_queries_def fst_and_then snd_and_then prod_eq_iff)

lemma example_queries_shape:
  assumes "sqlite3_connect env = None"
  shows "fst (example_queries env) = Inr ()"
    and "stage_shape env ''EXAMPLE QUERIES'' (snd (example_queries env))"
proof -
  let ?h = "\<lambda>e. log env [Lit ''Query error: '', Err e]"
  let ?mid = "snd (try_except (example_queries_try env) ?h)"
  have f: "fst (try_except (example_queries_try env) ?h) = Inr ()"
    by (simp add: fst_try_except split: sum.splits)
  show "fst (example_queries env) = Inr ()"
    using f assms by (simp add: example_queries_def fst_and_then)
  have "snd (example_queries env) =
        snd (banner env ''EXAMPLE QUERIES'') @ [] @
        Connect DB_PATH ReadWriteCreate # ?mid @ [Close]"
    using f assms by (simp add: example_queries_def snd_and_then fst_and_then)
  moreover have "\<forall>e\<in>set ([] @ ?mid). inner e"
    by (auto simp: snd_try_except dest: example_queries_try_inner split: sum.splits)
  ultimately show "stage_shape env ''EXAMPLE QUERIES'' (snd (example_queries env))"
    unfolding stage_shape_def by blast
qed

lemma export_to_csv_no_directory:
  assumes "mkdir env OUTPUT_DIR = Some e"
  shows "export_to_csv env k = (Inl e, snd (banner env ''EXPORTING DATA TO CSV''))"
  using assms
  by (simp add: export_to_csv_def fst_and_then snd_and_then prod_eq_iff)

lemma export_to_csv_unconnected:
  assumes "mkdir env OUTPUT_DIR = None" and "sqlite3_connect env = Some e"
  shows "export_to_csv env k =
           (Inl e, snd (banner env ''EXPORTING DATA TO CSV'') @ [Mkdir OUTPUT_DIR])"
  using assms
  by (simp add: export_to_csv_def fst_and_then snd_and_then prod_eq_iff)

lemma export_to_csv_shape:
  assumes "mkdir env OUTPUT_DIR = None" and "sqlite3_connect env = None"
  shows "fst (export_to_csv env k) = Inr ()"
    and "stage_shape env ''EXPORTING DATA TO CSV'' (snd (export_to_csv env k))"
proof -
  let ?h = "\<lambda>e. seq_all [log env [Lit ''Export error: '', Err e],
                          print [Lit ''Export error: '', Err e]]"
  let ?mid = "snd (try_except (export_to_csv_try env k) ?h)"
  have f: "fst (try_except (export_to_csv_try env k) ?h) = Inr ()"
    by (simp add: fst_try_except fst_and_then split: sum.splits)
  show "fst (export_to_csv env k) = Inr ()"
    using f assms by (simp add: export_to_csv_def fst_and_then)
  have "snd (export_to_csv env k) =
        snd (banner env ''EXPORTING DATA TO CSV'') @ [Mkdir OUTPUT_DIR] @
        Connect DB_PATH ReadWriteCreate # ?mid @ [Close]"
    using f assms by (simp add: export_to_csv_def snd_and_then fst_and_then)
  moreover have "\<forall>e\<in>set ([Mkdir OUTPUT_DIR] @ ?mid). inner e"
    by (auto simp: snd_try_except snd_and_then dest: export_to_csv_try_inner split: sum.splits)
  ultimately show "stage_shape env ''EXPORTING DATA TO CSV'' (snd (export_to_csv env k))"
    unfolding stage_shape_def by blast
qed

subsection \<open>Statements sent; the run as a whole\<close>

lemma in_executed: "sql \<in> set (executed evs) \<longleftrightarrow> Execute sql \<in> set evs"
  by (induction evs) (auto simp: executed_def split: event.splits)

lemma is_query_simps [simp]:
  "is_query sql_table_names" "is_query (sql_table_info t)" "is_query (sql_count t)"
  "is_query (sql_select_all t)" "is_query sql_first5" "is_query sql_by_year"
  "is_query sql_types" "is_query sql_props"
  by (simp_all add: is_query_def ascii_def sql_table_names_def sql_table_info_def sql_count_def
        sql_select_all_def sql_first5_def sql_by_year_def sql_types_def sql_props_def)

lemma reads_simps [simp]:
  "reads (Execute sql) \<longleftrightarrow> is_query sql" "reads (ToCsv p df)" "reads (Print m)"
  "reads (Mkdir p)" "reads (Connect p mode)" "reads Close" "reads (Append p m)"
  by (simp_all add: reads_def)

lemma inspect_table_reads: "e \<in> set (snd (inspect_table env t)) \<Longrightarrow> reads e"
  by (auto simp: inspect_table_def snd_and_then
           dest!: in_seq_all_map split: sum.splits)

lemma connect_events:
  "e \<in> set (snd (connect env)) \<Longrightarrow> e = Connect DB_PATH ReadWriteCreate"
  by (cases "sqlite3_connect env") simp_all

lemma path_mkdir_events: "e \<in> set (snd (path_mkdir env p)) \<Longrightarrow> e = Mkdir p"
  by (cases "mkdir env p") simp_all

lemma inspect_database_reads: "e \<in> set (snd (inspect_database env)) \<Longrightarrow> reads e"
  by (auto simp: inspect_database_def snd_and_then fst_and_then
           dest!: in_seq_all_map connect_events dest: inspect_table_reads split: sum.splits)

lemma load_table_reads: "e \<in> set (snd (load_table env t)) \<Longrightarrow> reads e"
  by (auto simp: load_table_def snd_and_then split: sum.splits)

lemma load_tables_reads: "e \<in> set (snd (load_tables env ts d)) \<Longrightarrow> reads e"
  by (induction ts arbitrary: d) (auto dest!: in_and_then dest: load_table_reads)

lemma load_data_reads: "e \<in> set (snd (load_data env)) \<Longrightarrow> reads e"
  by (auto simp: load_data_def snd_and_then fst_and_then
           dest!: connect_events dest: load_tables_reads split: sum.splits)

lemma example_queries_try_reads: "e \<in> set (snd (example_queries_try env)) \<Longrightarrow> reads e"
  by (auto simp: example_queries_try_def snd_and_then fst_and_then split: sum.splits)

lemma example_queries_reads: "e \<in> set (snd (example_queries env)) \<Longrightarrow> reads e"
  by (auto simp: example_queries_def snd_and_then fst_and_then snd_try_except
           dest!: connect_events dest: example_queries_try_reads split: sum.splits)

lemma export_table_reads: "e \<in> set (snd (export_table env k t)) \<Longrightarrow> reads e"
  by (auto simp: export_table_def df_to_csv_def snd_and_then emit_def lift_def
           split: sum.splits option.splits)

lemma export_tables_reads: "e \<in> set (snd (export_tables env k ts)) \<Longrightarrow> reads e"
  by (induction ts arbitrary: k) (auto dest!: in_and_then dest: export_table_reads)

lemma export_to_csv_try_reads: "e \<in> set (snd (export_to_csv_try env k)) \<Longrightarrow> reads e"
  by (auto simp: export_to_csv_try_def snd_and_then dest: export_tables_reads split: sum.splits)

lemma export_to_csv_reads: "e \<in> set (snd (export_to_csv env k)) \<Longrightarrow> reads e"
  by (auto simp: export_to_csv_def snd_and_then fst_and_then snd_try_except
           dest!: connect_events path_mkdir_events dest: export_to_csv_try_reads
           split: sum.splits)

lemma program_reads: "e \<in> set (snd (program env)) \<Longrightarrow> reads e"
  by (auto simp: program_def main_def snd_and_then fst_and_then
           dest: inspect_database_reads load_data_reads example_queries_reads export_to_csv_reads
           split: sum.splits if_splits)

lemma program_runs:
  assumes "db_exists env" "fst (inspect_database env) = Inr ()" "fst (load_data env) = Inr d"
  shows "program env =
           (fst (export_to_csv env 1),
            prelude env @ snd (inspect_database env) @ snd (load_data env) @
            snd (example_queries env) @ snd (export_to_csv env 1) @
            (case fst (export_to_csv env 1) of
               Inl e \<Rightarrow> []
             | Inr u \<Rightarrow> [Print [Lit (NL # ''Analysis complete! Results saved to: ''),
                                 PathP (LOG_FILE env)]]))"
proof -
  note q = example_queries_shape(1) [OF inspect_database_connected [OF assms(2)]]
  have "fst (program env) = fst (export_to_csv env 1)"
    using assms q
    by (simp add: program_def main_def fst_and_then split: sum.splits)
  moreover have "snd (program env) =
            prelude env @ snd (inspect_database env) @ snd (load_data env) @
            snd (example_queries env) @ snd (export_to_csv env 1) @
            (case fst (export_to_csv env 1) of
               Inl e \<Rightarrow> []
             | Inr u \<Rightarrow> [Print [Lit (NL # ''Analysis complete! Results saved to: ''),
                                 PathP (LOG_FILE env)]])"
    using assms q
    by (simp add: program_def main_def fst_and_then snd_and_then prelude_def split: sum.splits)
  ultimately show ?thesis by (simp add: prod_eq_iff)
qed

lemma program_completes:
  assumes "db_exists env" "fst (inspect_database env) = Inr ()" "fst (load_data env) = Inr d"
    and "mkdir env OUTPUT_DIR = None"
  shows "program env =
           (Inr (),
            prelude env @ snd (inspect_database env) @ snd (load_data env) @
            snd (example_queries env) @ snd (export_to_csv env 1) @
            [Print [Lit (NL # ''Analysis complete! Results saved to: ''), PathP (LOG_FILE env)]])"
  using program_runs [OF assms(1-3)]
    export_to_csv_shape(1) [OF assms(4) inspect_database_connected [OF assms(2)], of 1]
  by simp

lemma banner_title_simps [simp]:
  "banner_title (Mkdir p) = None" "banner_title (Print m) = None"
  "banner_title (Connect p mode) = None" "banner_title (Execute sql) = None"
  "banner_title Close = None" "banner_title (ToCsv p df) = None"
  by (simp_all add: banner_title_def)

lemma export_to_csv_Inr:
  assumes "fst (export_to_csv env k) = Inr ()"
  shows "mkdir env OUTPUT_DIR = None" and "sqlite3_connect env = None"
proof -
  show m: "mkdir env OUTPUT_DIR = None"
    using assms by (cases "mkdir env OUTPUT_DIR") (simp_all add: export_to_csv_no_directory)
  show "sqlite3_connect env = None"
    using assms m
    by (cases "sqlite3_connect env") (simp_all add: export_to_csv_unconnected)
qed

lemma program_Inr:
  assumes "db_exists env" "fst (program env) = Inr ()"
  shows "fst (inspect_database env) = Inr ()" "\<exists>d. fst (load_data env) = Inr d"
    "mkdir env OUTPUT_DIR = None"
proof -
  from assms show 1: "fst (inspect_database env) = Inr ()"
    by (auto simp: program_def main_def fst_and_then split: sum.splits)
  from assms show 2: "\<exists>d. fst (load_data env) = Inr d"
    by (auto simp: program_def main_def fst_and_then split: sum.splits)
  then obtain d where d: "fst (load_data env) = Inr d" ..
  from program_runs [OF assms(1) 1 d] assms(2) have "fst (export_to_csv env 1) = Inr ()"
    by simp
  then show "mkdir env OUTPUT_DIR = None" by (rule export_to_csv_Inr)
qed

lemma stage_titles_mem:
  "''INSPECTING DATABASE STRUCTURE'' \<in> set stage_titles"
  "''LOADING DATA INTO PANDAS'' \<in> set stage_titles"
  "''EXAMPLE QUERIES'' \<in> set stage_titles"
  "''EXPORTING DATA TO CSV'' \<in> set stage_titles"
  by (simp_all add: stage_titles_def)

lemma prelude_projections:
  "connection_events (prelude env) = []" "stages_begun (prelude env) = []"
  by (simp_all add: prelude_def stages_begun_Cons)

lemma program_connections:
  assumes "db_exists env" "fst (inspect_database env) = Inr ()" "fst (load_data env) = Inr d"
    and "mkdir env OUTPUT_DIR = None"
  shows "connection_events (snd (program env)) =
           concat (replicate 4 [Connect DB_PATH ReadWriteCreate, Close])"
proof -
  note c = inspect_database_connected [OF assms(2)]
  note t = stage_titles_mem
  note s1 = stage_shape_projections [OF inspect_database_shape [OF assms(2)]]
  note s2 = stage_shape_projections [OF load_data_shape [OF assms(3)]]
  note s3 = stage_shape_projections [OF example_queries_shape(2) [OF c]]
  note s4 = stage_shape_projections [OF export_to_csv_shape(2) [OF assms(4) c, of "Suc 0"]]
  have e: "snd (program env) =
            prelude env @ snd (inspect_database env) @ snd (load_data env) @
            snd (example_queries env) @ snd (export_to_csv env 1) @
            [Print [Lit (NL # ''Analysis complete! Results saved to: ''), PathP (LOG_FILE env)]]"
    by (simp add: program_completes [OF assms])
  show ?thesis
    unfolding e
    by (simp add: prelude_projections s1(1) [OF t(1)] s2(1) [OF t(2)] s3(1) [OF t(3)]
          s4(1) [OF t(4)] eval_nat_numeral)
qed

lemma export_to_csv_begun:
  "stages_begun (snd (export_to_csv env k)) = [''EXPORTING DATA TO CSV'']"
proof (cases "mkdir env OUTPUT_DIR")
  case (Some e)
  then show ?thesis
    by (simp add: export_to_csv_no_directory banner_projections stage_titles_mem del: snd_banner)
next
  case None
  show ?thesis
  proof (cases "sqlite3_connect env")
    case (Some e)
    with None show ?thesis
      by (simp add: export_to_csv_unconnected banner_projections stage_titles_mem
            stages_begun_Cons del: snd_banner)
  next
    case c: None
    from stage_shape_projections(2) [OF export_to_csv_shape(2) [OF None c] stage_titles_mem(4)]
    show ?thesis .
  qed
qed

lemma program_stages:
  assumes "db_exists env" "fst (inspect_database env) = Inr ()" "fst (load_data env) = Inr d"
  shows "stages_begun (snd (program env)) = stage_titles"
proof -
  note c = inspect_database_connected [OF assms(2)]
  note t = stage_titles_mem
  note s1 = stage_shape_projections(2) [OF inspect_database_shape [OF assms(2)] t(1)]
  note s2 = stage_shape_projections(2) [OF load_data_shape [OF assms(3)] t(2)]
  note s3 = stage_shape_projections(2) [OF example_queries_shape(2) [OF c] t(3)]
  have "stages_begun (snd (program env)) =
          [''INSPECTING DATABASE STRUCTURE'', ''LOADING DATA INTO PANDAS'',
           ''EXAMPLE QUERIES'', ''EXPORTING DATA TO CSV'']"
    by (simp add: program_runs [OF assms] prelude_projections s1 s2 s3 export_to_csv_begun
          stages_begun_Cons split: sum.splits)
  then show ?thesis by (simp add: stage_titles_def)
qed

lemma attacks_stages:
  "db_exists env_attacks" "fst (inspect_database env_attacks) = Inr ()"
  "fst (load_data env_attacks) = Inr [attacks \<mapsto> df_attacks]"
  by (simp_all add: env_attacks_def inspect_database_def inspect_table_def load_data_def
        load_table_def fst_and_then)

lemma notdb_run:
  "db_exists env_notdb"
  "fst (program env_notdb) = Inl not_a_database"
  "stages_begun (snd (program env_notdb)) = [''INSPECTING DATABASE STRUCTURE'']"
  by (simp_all add: env_notdb_def env_notes_def program_def main_def inspect_database_def
        fst_and_then snd_and_then stages_begun_Cons banner_title_stage stage_titles_def)

subsection \<open>Exceptions: where they are caught and where they are not\<close>

lemma seq_all_map_Inr:
  "fst (seq_all (map f xs)) = Inr () \<Longrightarrow> \<forall>x\<in>set xs. fst (f x) = Inr ()"
  by (induction xs) (auto simp: fst_and_then split: sum.splits)

lemma inspect_table_Inr:
  assumes "fst (inspect_table env t) = Inr ()"
  shows "\<exists>cols n. fetch_columns env (sql_table_info t) = Inr cols \<and>
                  fetch_count env (sql_count t) = Inr n"
  using assms
  by (auto simp: inspect_table_def fst_and_then split: sum.splits)

lemma inspect_database_Inr:
  assumes "fst (inspect_database env) = Inr ()"
  shows "\<exists>tables. fetch_names env sql_table_names = Inr tables \<and>
           (\<forall>t\<in>set tables. \<exists>cols n. fetch_columns env (sql_table_info t) = Inr cols \<and>
                                      fetch_count env (sql_count t) = Inr n)"
proof -
  from assms obtain tables where n: "fetch_names env sql_table_names = Inr tables"
    and ok: "fst (seq_all (map (inspect_table env) tables)) = Inr ()"
    by (auto simp: inspect_database_def fst_and_then split: sum.splits)
  from seq_all_map_Inr [OF ok] inspect_table_Inr n show ?thesis by blast
qed

lemma load_data_Inr:
  assumes "fst (load_data env) = Inr d"
  shows "\<exists>tables. fetch_names env sql_table_names = Inr tables \<and>
           (\<forall>t\<in>set tables. \<exists>df. read_sql_query env (sql_select_all t) = Inr df)"
proof -
  from assms obtain tables where n: "fetch_names env sql_table_names = Inr tables"
    and ok: "fst (load_tables env tables Map.empty) = Inr d"
    by (auto simp: load_data_def fst_and_then split: sum.splits)
  from load_tables_Inr [OF ok] have
    "\<forall>t\<in>set tables. \<exists>df. read_sql_query env (sql_select_all t) = Inr df" by blast
  with n show ?thesis by blast
qed

lemma inspect_database_unconnected:
  assumes "sqlite3_connect env = Some e"
  shows "inspect_database env = (Inl e, snd (banner env ''INSPECTING DATABASE STRUCTURE''))"
  using assms
  by (simp add: inspect_database_def fst_and_then snd_and_then prod_eq_iff)

lemma load_data_unconnected:
  assumes "sqlite3_connect env = Some e"
  shows "load_data env = (Inl e, snd (banner env ''LOADING DATA INTO PANDAS''))"
  using assms
  by (simp add: load_data_def fst_and_then snd_and_then prod_eq_iff)

lemma inspect_database_Inl:
  assumes "fst (inspect_database env) = Inl e" and c: "sqlite3_connect env = None"
  shows "connection_events (snd (inspect_database env)) = [Connect DB_PATH ReadWriteCreate]"
proof (cases "fetch_names env sql_table_names")
  case (Inl a)
  then show ?thesis
    using c by (simp add: inspect_database_def snd_and_then fst_and_then)
next
  case (Inr tables)
  with assms have f: "fst (seq_all (map (inspect_table env) tables)) = Inl e"
    by (auto simp: inspect_database_def fst_and_then split: sum.splits)
  have "\<forall>ev\<in>set (snd (seq_all (map (inspect_table env) tables))). inner ev"
    by (auto dest!: in_seq_all_map dest: inspect_table_inner)
  then have "connection_events (snd (seq_all (map (inspect_table env) tables))) = []"
    using inner_projections by blast
  then show ?thesis
    using Inr f c by (simp add: inspect_database_def snd_and_then fst_and_then)
qed

lemma load_data_Inl:
  assumes "fst (load_data env) = Inl e" and c: "sqlite3_connect env = None"
  shows "connection_events (snd (load_data env)) = [Connect DB_PATH ReadWriteCreate]"
proof (cases "fetch_names env sql_table_names")
  case (Inl a)
  then show ?thesis
    using c by (simp add: load_data_def snd_and_then fst_and_then)
next
  case (Inr tables)
  with assms obtain e' where f: "fst (load_tables env tables Map.empty) = Inl e'"
    by (auto simp: load_data_def fst_and_then split: sum.splits)
  have "\<forall>ev\<in>set (snd (load_tables env tables Map.empty)). inner ev"
    by (auto dest: load_tables_inner)
  then have "connection_events (snd (load_tables env tables Map.empty)) = []"
    using inner_projections by blast
  then show ?thesis
    using Inr f c by (simp add: load_data_def snd_and_then fst_and_then)
qed

lemma example_queries_caught:
  assumes "fst (example_queries_try env) = Inl e" and "sqlite3_connect env = None"
  shows "snd (example_queries env) =
           snd (banner env ''EXAMPLE QUERIES'') @ [Connect DB_PATH ReadWriteCreate] @
           snd (example_queries_try env) @
           [Append (LOG_FILE env) [Lit ''Query error: '', Err e, Lit [NL]], Close]"
  using assms
  by (simp add: example_queries_def snd_and_then fst_and_then fst_try_except snd_try_except)

lemma export_to_csv_caught:
  assumes "fst (export_to_csv_try env k) = Inl e"
    and "mkdir env OUTPUT_DIR = None" and "sqlite3_connect env = None"
  shows "snd (export_to_csv env k) =
           snd (banner env ''EXPORTING DATA TO CSV'') @
           [Mkdir OUTPUT_DIR, Connect DB_PATH ReadWriteCreate] @
           snd (export_to_csv_try env k) @
           [Append (LOG_FILE env) [Lit ''Export error: '', Err e, Lit [NL]],
            Print [Lit ''Export error: '', Err e], Close]"
  using assms
  by (simp add: export_to_csv_def snd_and_then fst_and_then fst_try_except snd_try_except)

lemma program_stage1_raises:
  assumes "db_exists env" "fst (inspect_database env) = Inl e"
  shows "program env = (Inl e, prelude env @ snd (inspect_database env))"
  using assms
  by (simp add: program_def main_def fst_and_then snd_and_then prelude_def prod_eq_iff)

lemma program_stage2_raises:
  assumes "db_exists env" "fst (inspect_database env) = Inr ()" "fst (load_data env) = Inl e"
  shows "program env =
           (Inl e, prelude env @ snd (inspect_database env) @ snd (load_data env))"
  using assms
  by (simp add: program_def main_def fst_and_then snd_and_then prelude_def prod_eq_iff)

lemma first_query_raises:
  "read_sql_query env sql_first5 = Inl e \<Longrightarrow> fst (example_queries_try env) = Inl e"
  by (simp add: example_queries_try_def fst_and_then)

lemma nowrite_queries: "fst (example_queries_try env_nowrite) = Inl no_such_table"
  by (rule first_query_raises)
     (simp add: env_nowrite_def env_notes_def sql_first5_def sql_select_all_def ascii_def)

lemma nowrite_export: "fst (export_to_csv_try env_nowrite 1) = Inl denied"
  by (simp add: env_nowrite_def env_notes_def run_defs df_notes_def)

lemma nowrite_stages:
  "db_exists env_nowrite"
  "fst (inspect_database env_nowrite) = Inr ()"
  "fst (load_data env_nowrite) = Inr [ascii ''notes'' \<mapsto> df_notes]"
  by (simp_all add: env_nowrite_def env_notes_def inspect_database_def inspect_table_def
        load_data_def load_table_def fst_and_then sql_select_all_def)

lemma notdb_stage1: "fst (inspect_database env_notdb) = Inl not_a_database"
  by (simp add: env_notdb_def env_notes_def inspect_database_def fst_and_then)

lemma damaged_run:
  "db_exists env_damaged"
  "fst (inspect_database env_damaged) = Inr ()"
  "fst (load_data env_damaged) = Inl malformed"
  by (simp_all add: env_damaged_def env_notes_def inspect_database_def inspect_table_def
        load_data_def load_table_def fst_and_then)

subsection \<open>Traces of the query stage\<close>

lemma example_queries_executed:
  "sqlite3_connect env = None \<Longrightarrow>
   executed (snd (example_queries env)) = executed (snd (example_queries_try env))"
  by (simp add: example_queries_def snd_and_then fst_and_then fst_try_except snd_try_except
           split: sum.splits)

lemma example_queries_try_executed:
  "executed (snd (example_queries_try env)) = [sql_first5] \<or>
   executed (snd (example_queries_try env)) = [sql_first5, sql_by_year] \<or>
   executed (snd (example_queries_try env)) = [sql_first5, sql_by_year, sql_types] \<or>
   executed (snd (example_queries_try env)) = [sql_first5, sql_by_year, sql_types, sql_props]"
  by (simp add: example_queries_try_def snd_and_then fst_and_then split: sum.splits)

lemma example_statements_table: "list_all (str_contains from_attacks) example_statements"
  by (simp add: example_statements_def from_attacks_def ascii_def
        sql_first5_def sql_by_year_def sql_types_def sql_props_def)

lemma example_queries_try_Inr:
  assumes "fst (example_queries_try env) = Inr ()"
  shows "\<exists>df y year year' g ty pr.
           read_sql_query env sql_first5 = Inr df \<and>
           read_sql_query env sql_by_year = Inr y \<and>
           getitem y (ascii ''Year'') ''str'' = Inr year \<and>
           str_extract env year_pattern year = Inr year' \<and>
           groupby_sum env (ascii ''Year'') (ascii ''Count'') (setitem y (ascii ''Year'') year')
             = Inr g \<and>
           read_sql_query env sql_types = Inr ty \<and>
           read_sql_query env sql_props = Inr pr \<and>
           snd (example_queries_try env) =
             [Execute sql_first5,
              Append (LOG_FILE env) [Lit (NL # ''First 5 attacks:''), Lit [NL]],
              Append (LOG_FILE env) [Frame df, Lit [NL]],
              Append (LOG_FILE env) [Lit (NL # rule60), Lit [NL]],
              Append (LOG_FILE env) [Lit ''Attacks by Year:'', Lit [NL]],
              Append (LOG_FILE env) [Lit rule60, Lit [NL]],
              Execute sql_by_year,
              Append (LOG_FILE env) [FrameNoIndex g, Lit [NL]],
              Append (LOG_FILE env) [Lit (NL # rule60), Lit [NL]],
              Append (LOG_FILE env) [Lit ''Top 10 Attack Types:'', Lit [NL]],
              Append (LOG_FILE env) [Lit rule60, Lit [NL]],
              Execute sql_types,
              Append (LOG_FILE env) [Frame ty, Lit [NL]],
              Append (LOG_FILE env) [Lit (NL # rule60), Lit [NL]],
              Append (LOG_FILE env) [Lit ''Security Properties Violated:'', Lit [NL]],
              Append (LOG_FILE env) [Lit rule60, Lit [NL]],
              Execute sql_props,
              Append (LOG_FILE env) [Frame pr, Lit [NL]]]"
  using assms
  by (auto simp: example_queries_try_def snd_and_then fst_and_then split: sum.splits)

lemma first_query_raises_trace:
  "read_sql_query env sql_first5 = Inl e \<Longrightarrow> snd (example_queries_try env) = [Execute sql_first5]"
  by (simp add: example_queries_try_def snd_and_then)

lemma notes_first_query: "read_sql_query env_notes sql_first5 = Inl no_such_table"
  by (simp add: env_notes_def sql_first5_def sql_select_all_def ascii_def)

lemma attacks_answers:
  "read_sql_query env_attacks sql_first5 = Inr df_attacks"
  "read_sql_query env_attacks sql_by_year = Inr df_years"
  "read_sql_query env_attacks sql_types = Inr df_counts"
  "read_sql_query env_attacks sql_props = Inr df_none"
  "str_extract env_attacks pat s = Inr s"
  "groupby_sum env_attacks key val df = Inr df"
  by (simp_all add: env_attacks_def sql_props_def sql_select_all_def sql_first5_def
        sql_by_year_def sql_types_def attacks_def ascii_def)

lemma attacks_queries: "fst (example_queries_try env_attacks) = Inr ()"
  by (simp add: example_queries_try_def fst_and_then attacks_answers getitem_def df_years_def
        ascii_def)

subsection \<open>Example runs and further facts for the claims\<close>

lemma str_run:
  "csv_writes (snd (export_to_csv env_str 1)) = [(csv_notes, df_notes_str)]"
  by (simp add: env_str_def env_notes_def run_defs fst_and_then snd_and_then fst_try_except
        snd_try_except getitem_def df_notes_str_def csv_notes_def)

lemma mixed_run:
  "csv_writes (snd (export_to_csv env_mixed 1)) = [(csv_mixed, df_mixed_out)]"
  by (simp add: env_mixed_def env_notes_def run_defs fst_and_then snd_and_then fst_try_except
        snd_try_except df_mixed_def df_mixed_out_def csv_mixed_def)

lemma clean_cell_cases:
  "clean_cell c =
     (case c of
        CStr s \<Rightarrow> CStr (str_strip (str_replace CR SPACE (str_replace LF SPACE s)))
      | _ \<Rightarrow> Missing)"
  by (simp add: clean_cell_def clean_text_def split: cell.splits)

lemma export_tables_frames:
  "fst (export_tables env k ts) = Inr () \<Longrightarrow>
   \<exists>outs. length outs = length ts \<and>
     csv_writes (snd (export_tables env k ts)) =
       zip (map (csv_path env) (zip [k ..< k + length ts] ts)) outs \<and>
     (\<forall>n<length ts. \<exists>df. read_sql_query env (sql_select_all (ts ! n)) = Inr df \<and>
        fst (clean_columns env (map cname (columns df)) df) = Inr (outs ! n))"
proof (induction ts arbitrary: k)
  case Nil
  then show ?case by simp
next
  case (Cons t ts)
  from Cons.prems have ok: "fst (export_table env k t) = Inr ()"
    and rest: "fst (export_tables env (Suc k) ts) = Inr ()"
    by (auto simp: fst_and_then split: sum.splits)
  from export_table_ok [OF ok] obtain df o1 where
    df: "read_sql_query env (sql_select_all t) = Inr df"
        "fst (clean_columns env (map cname (columns df)) df) = Inr o1" and
    w: "csv_writes (snd (export_table env k t)) = [(csv_path env (k, t), o1)]"
    by (auto simp: csv_path_def)
  from Cons.IH [OF rest] obtain outs where
    l: "length outs = length ts" and
    ws: "csv_writes (snd (export_tables env (Suc k) ts)) =
           zip (map (csv_path env) (zip [Suc k ..< Suc k + length ts] ts)) outs" and
    fr: "\<forall>n<length ts. \<exists>df. read_sql_query env (sql_select_all (ts ! n)) = Inr df \<and>
           fst (clean_columns env (map cname (columns df)) df) = Inr (outs ! n)"
    by blast
  have u: "[k ..< k + length (t # ts)] = k # [Suc k ..< Suc k + length ts]"
    by (simp add: upt_rec)
  have 1: "length (o1 # outs) = length (t # ts)" using l by simp
  have 2: "csv_writes (snd (export_tables env k (t # ts))) =
        zip (map (csv_path env) (zip [k ..< k + length (t # ts)] (t # ts))) (o1 # outs)"
    unfolding u using ok w ws by (simp add: snd_and_then)
  have 3: "\<forall>n<length (t # ts). \<exists>df. read_sql_query env (sql_select_all ((t # ts) ! n)) = Inr df \<and>
        fst (clean_columns env (map cname (columns df)) df) = Inr ((o1 # outs) ! n)"
  proof (intro allI impI)
    fix n assume "n < length (t # ts)"
    then show "\<exists>df. read_sql_query env (sql_select_all ((t # ts) ! n)) = Inr df \<and>
        fst (clean_columns env (map cname (columns df)) df) = Inr ((o1 # outs) ! n)"
      using df fr by (cases n) auto
  qed
  from 1 2 3 show ?case by blast
qed

lemma csv_filename_inj:
  assumes "csv_filename t a = csv_filename t' b" and "length a = length b"
  shows "str_replace SPACE UNDERSCORE t = str_replace SPACE UNDERSCORE t'"
proof -
  let ?r = "str_replace SPACE UNDERSCORE"
  from assms(1) have "(?r t @ ascii ''_'') @ (a @ ascii ''.csv'') =
                      (?r t' @ ascii ''_'') @ (b @ ascii ''.csv'')"
    by (simp add: csv_filename_def)
  moreover have "length (a @ ascii ''.csv'') = length (b @ ascii ''.csv'')"
    using assms(2) by simp
  ultimately have "?r t @ ascii ''_'' = ?r t' @ ascii ''_''"
    by (metis append_eq_append_conv)
  then show ?thesis by simp
qed

lemma csv_paths_distinct:
  assumes "\<forall>i j. length (strftime_now env i) = length (strftime_now env j)"
    and "distinct (map (str_replace SPACE UNDERSCORE) ts)"
  shows "distinct (map (csv_path env) (zip [k ..< k + length ts] ts))"
proof -
  let ?ps = "map (csv_path env) (zip [k ..< k + length ts] ts)"
  have len: "length ?ps = length ts" by simp
  have nth: "?ps ! n = OUTPUT_DIR @ [csv_filename (ts ! n) (strftime_now env (k + n))]"
    if "n < length ts" for n
    using that by (simp add: csv_path_def)
  show ?thesis
    unfolding distinct_conv_nth len
  proof (intro allI impI)
    fix n m assume n: "n < length ts" and m: "m < length ts" and "n \<noteq> m"
    with assms(2) have "str_replace SPACE UNDERSCORE (ts ! n) \<noteq>
                        str_replace SPACE UNDERSCORE (ts ! m)"
      by (simp add: distinct_conv_nth)
    with csv_filename_inj assms(1)
    have "csv_filename (ts ! n) (strftime_now env (k + n)) \<noteq>
          csv_filename (ts ! m) (strftime_now env (k + m))"
      by blast
    then show "?ps ! n \<noteq> ?ps ! m"
      using nth [OF n] nth [OF m] by simp
  qed
qed

lemma two_try: "fst (export_to_csv_try env_two 1) = Inr ()"
  by (simp add: env_two_def env_notes_def run_defs fst_and_then getitem_def setitem_def
        clean_series_def str_method_def df_notes_def)

lemma two_run:
  "csv_writes (snd (export_to_csv env_two 1)) =
     [(csv_notes, df_notes_out), (csv_a_b, df_notes_out)]"
  by (simp add: env_two_def env_notes_def run_defs fst_and_then snd_and_then fst_try_except
        snd_try_except getitem_def setitem_def clean_series_def str_method_def df_notes_def
        df_notes_out_def csv_notes_def csv_a_b_def)

lemma collide_run:
  "fst (export_to_csv_try env_collide 1) = Inr ()"
  "map fst (csv_writes (snd (export_to_csv env_collide 1))) = [csv_a_b, csv_a_b]"
  by (simp_all add: env_collide_def env_notes_def run_defs fst_and_then snd_and_then
        fst_try_except snd_try_except getitem_def setitem_def clean_series_def str_method_def
        df_notes_def csv_a_b_def)

lemma nowrite_no_file: "csv_writes (snd (export_to_csv env_nowrite 1)) = []"
  by (simp add: env_nowrite_def env_notes_def run_defs fst_and_then snd_and_then
        fst_try_except snd_try_except getitem_def setitem_def clean_series_def str_method_def
        df_notes_def)

lemma attacks_directory: "mkdir env_attacks OUTPUT_DIR = None"
  by (simp add: env_attacks_def)

lemma inspect_database_open:
  assumes "fst (inspect_database env) = Inl e"
  shows "Close \<notin> set (snd (inspect_database env))"
proof (cases "sqlite3_connect env")
  case (Some c)
  then show ?thesis by (simp add: inspect_database_unconnected)
next
  case None
  from inspect_database_Inl [OF assms None]
  have "Close \<notin> set (connection_events (snd (inspect_database env)))" by simp
  then show ?thesis by (simp add: connection_events_def)
qed

lemma load_data_open:
  assumes "fst (load_data env) = Inl e"
  shows "last (snd (load_data env)) \<noteq> Close" and "snd (load_data env) \<noteq> []"
proof -
  show ne: "snd (load_data env) \<noteq> []"
    by (simp add: load_data_def snd_and_then split: sum.splits)
  show "last (snd (load_data env)) \<noteq> Close"
  proof (cases "sqlite3_connect env")
    case (Some c)
    then show ?thesis by (simp add: load_data_unconnected)
  next
    case None
    from load_data_Inl [OF assms None]
    have "Close \<notin> set (connection_events (snd (load_data env)))" by simp
    then have "Close \<notin> set (snd (load_data env))" by (simp add: connection_events_def)
    with ne show ?thesis using last_in_set by metis
  qed
qed

lemma blocked_run:
  "db_exists env_blocked"
  "export_to_csv env_blocked 1 =
     (Inl file_exists, snd (banner env_blocked ''EXPORTING DATA TO CSV''))"
  "fst (inspect_database env_blocked) = Inr ()"
  "fst (load_data env_blocked) = Inr [ascii ''notes'' \<mapsto> df_notes]"
  "mkdir env_blocked OUTPUT_DIR = Some file_exists"
  by (simp_all add: env_blocked_def env_notes_def export_to_csv_no_directory
        inspect_database_def inspect_table_def load_data_def load_table_def fst_and_then
        sql_select_all_def)

lemma unopenable_run:
  "sqlite3_connect env_unopenable = Some unable_to_open"
  "mkdir env_unopenable OUTPUT_DIR = None"
  by (simp_all add: env_unopenable_def env_notes_def)

lemma nowrite_oracles:
  "sqlite3_connect env_nowrite = None" "mkdir env_nowrite OUTPUT_DIR = None"
  by (simp_all add: env_nowrite_def env_notes_def)

lemma notes_connect: "sqlite3_connect env_notes = None"
  by (simp add: env_notes_def)

lemma attacks_connect: "sqlite3_connect env_attacks = None"
  by (simp add: env_attacks_def)

section \<open>The claims\<close>

subsection \<open>The export stage and the cells it writes\<close>

text \<open>
  Claim C10. The cleaning in \<^verbatim>\<open>export_to_csv\<close> touches only the columns of dtype object:
  whatever file the export writes, it holds the frame read for one of the enumerated
  tables, with as many rows and columns, and every column whose dtype is not object is
  the column as it was loaded.
\<close>

theorem export_leaves_other_dtypes:
  assumes "(p, out) \<in> set (csv_writes (snd (export_to_csv env k)))"
  shows "\<exists>tables t df. fetch_names env sql_table_names = Inr tables \<and> t \<in> set tables \<and>
           read_sql_query env (sql_select_all t) = Inr df \<and>
           nrows out = nrows df \<and> length (columns out) = length (columns df) \<and>
           (\<forall>i<length (columns df). dtype (columns df ! i) \<noteq> Object \<longrightarrow>
                columns out ! i = columns df ! i)"
proof -
  from export_written_frame [OF assms] obtain tables t df where
    h: "fetch_names env sql_table_names = Inr tables" "t \<in> set tables"
       "read_sql_query env (sql_select_all t) = Inr df"
       "out = df\<lparr>columns := map (\<lambda>c. if dtype c = Object then cleaned c else c) (columns df)\<rparr>"
    by blast
  from h(4) have "nrows out = nrows df" "length (columns out) = length (columns df)"
    "\<forall>i<length (columns df). dtype (columns df ! i) \<noteq> Object \<longrightarrow>
       columns out ! i = columns df ! i"
    by simp_all
  with h(1-3) show ?thesis by blast
qed

theorem export_leaves_other_dtypes_witness:
  "(csv_notes, df_notes_out) \<in> set (csv_writes (snd (export_to_csv env_notes 1))) \<and>
   read_sql_query env_notes (sql_select_all (ascii ''notes'')) = Inr df_notes \<and>
   dtype (columns df_notes ! 0) = Int64 \<and>
   columns df_notes_out ! 0 = columns df_notes ! 0 \<and>
   (\<exists>tables t df. fetch_names env_notes sql_table_names = Inr tables \<and> t \<in> set tables \<and>
      read_sql_query env_notes (sql_select_all t) = Inr df \<and>
      nrows df_notes_out = nrows df \<and> length (columns df_notes_out) = length (columns df) \<and>
      (\<forall>i<length (columns df). dtype (columns df ! i) \<noteq> Object \<longrightarrow>
           columns df_notes_out ! i = columns df ! i))"
proof -
  have h: "(csv_notes, df_notes_out) \<in> set (csv_writes (snd (export_to_csv env_notes 1)))"
    unfolding notes_run by simp
  have "read_sql_query env_notes (sql_select_all (ascii ''notes'')) = Inr df_notes"
    by (simp add: env_notes_def)
  moreover have "dtype (columns df_notes ! 0) = Int64"
    "columns df_notes_out ! 0 = columns df_notes ! 0"
    by (simp_all add: df_notes_def df_notes_out_def)
  ultimately show ?thesis
    using h export_leaves_other_dtypes [OF h] by blast
qed

text \<open>
  Claim C3, as stated, fails: the cleaning is guarded by \<^verbatim>\<open>df[col].dtype == 'object'\<close>, and
  a text column need not have that dtype. Under pandas 3 the text column of the table
  \<^verbatim>\<open>notes\<close> is loaded with the string dtype, the guard is false, and the value \<^verbatim>\<open>"a\nb "\<close>
  is written with its line feed.
\<close>

theorem text_column_other_dtype_counterexample:
  "read_sql_query env_str (sql_select_all (ascii ''notes'')) = Inr df_notes_str \<and>
   dtype (columns df_notes_str ! 1) = StringDtype \<and>
   cells (columns df_notes_str ! 1) ! 0 = CStr [97, 10, 98, 32] \<and>
   has_linebreak (CStr [97, 10, 98, 32]) \<and>
   csv_writes (snd (export_to_csv env_str 1)) = [(csv_notes, df_notes_str)]"
proof -
  have "read_sql_query env_str (sql_select_all (ascii ''notes'')) = Inr df_notes_str"
    by (simp add: env_str_def)
  moreover have "dtype (columns df_notes_str ! 1) = StringDtype"
    "cells (columns df_notes_str ! 1) ! 0 = CStr [97, 10, 98, 32]"
    by (simp_all add: df_notes_str_def)
  moreover have "has_linebreak (CStr [97, 10, 98, 32])"
    by (simp add: has_linebreak_def LF_def)
  ultimately show ?thesis using str_run by blast
qed

text \<open>
  Claim C3, amended. In every file the export writes, a column that was loaded with
  dtype object (how pandas before version 3 loads text) has no cell with a line feed or
  a carriage return in it; names and dtypes of the columns are those of the loaded
  frame.
\<close>

theorem export_text_has_no_linebreak:
  assumes "(p, out) \<in> set (csv_writes (snd (export_to_csv env k)))"
  shows "\<exists>tables t df. fetch_names env sql_table_names = Inr tables \<and> t \<in> set tables \<and>
           read_sql_query env (sql_select_all t) = Inr df \<and>
           map cname (columns out) = map cname (columns df) \<and>
           map dtype (columns out) = map dtype (columns df) \<and>
           (\<forall>i<length (columns df). dtype (columns df ! i) = Object \<longrightarrow>
                (\<forall>c\<in>set (cells (columns out ! i)). \<not> has_linebreak c))"
proof -
  from export_written_frame [OF assms] obtain tables t df where
    h: "fetch_names env sql_table_names = Inr tables" "t \<in> set tables"
       "read_sql_query env (sql_select_all t) = Inr df"
       "out = df\<lparr>columns := map (\<lambda>c. if dtype c = Object then cleaned c else c) (columns df)\<rparr>"
    by blast
  from h(4) have "map cname (columns out) = map cname (columns df)"
    "map dtype (columns out) = map dtype (columns df)"
    by simp_all
  moreover from h(4) have
    "\<forall>i<length (columns df). dtype (columns df ! i) = Object \<longrightarrow>
       (\<forall>c\<in>set (cells (columns out ! i)). \<not> has_linebreak c)"
    by (auto simp: cleaned_def clean_cell_no_linebreak)
  ultimately show ?thesis using h(1-3) by blast
qed

theorem export_text_has_no_linebreak_witness:
  "(csv_notes, df_notes_out) \<in> set (csv_writes (snd (export_to_csv env_notes 1))) \<and>
   dtype (columns df_notes ! 1) = Object \<and>
   has_linebreak (cells (columns df_notes ! 1) ! 0) \<and>
   \<not> has_linebreak (cells (columns df_notes_out ! 1) ! 0) \<and>
   (\<exists>tables t df. fetch_names env_notes sql_table_names = Inr tables \<and> t \<in> set tables \<and>
      read_sql_query env_notes (sql_select_all t) = Inr df \<and>
      map cname (columns df_notes_out) = map cname (columns df) \<and>
      map dtype (columns df_notes_out) = map dtype (columns df) \<and>
      (\<forall>i<length (columns df). dtype (columns df ! i) = Object \<longrightarrow>
           (\<forall>c\<in>set (cells (columns df_notes_out ! i)). \<not> has_linebreak c)))"
proof -
  have h: "(csv_notes, df_notes_out) \<in> set (csv_writes (snd (export_to_csv env_notes 1)))"
    unfolding notes_run by simp
  have "dtype (columns df_notes ! 1) = Object"
    "has_linebreak (cells (columns df_notes ! 1) ! 0)"
    "\<not> has_linebreak (cells (columns df_notes_out ! 1) ! 0)"
    by (simp_all add: df_notes_def df_notes_out_def has_linebreak_def LF_def CR_def)
  then show ?thesis
    using h export_text_has_no_linebreak [OF h] by blast
qed

text \<open>
  Claim C2, as stated, fails in two ways, both in a column of dtype object: the chain
  of string methods ends with \<^verbatim>\<open>.str.strip()\<close>, so the text \<^verbatim>\<open>" ok"\<close> is written as \<^verbatim>\<open>"ok"\<close>;
  and a value that is no text comes out of the string methods as a missing value, so
  the number 7 and the bytes \<^verbatim>\<open>b"B"\<close> of the table \<^verbatim>\<open>mixed\<close> are written as missing. None of
  the three values has a line break.
\<close>

theorem export_changes_other_values_counterexample:
  "read_sql_query env_mixed (sql_select_all (ascii ''mixed'')) = Inr df_mixed \<and>
   dtype (columns df_mixed ! 0) = Object \<and>
   cells (columns df_mixed ! 0) = [CStr (ascii '' ok''), CInt 7, CBytes [66]] \<and>
   \<not> has_linebreak (CStr (ascii '' ok'')) \<and>
   \<not> has_linebreak (CInt 7) \<and>
   \<not> has_linebreak (CBytes [66]) \<and>
   csv_writes (snd (export_to_csv env_mixed 1)) = [(csv_mixed, df_mixed_out)] \<and>
   cells (columns df_mixed_out ! 0) = [CStr (ascii ''ok''), Missing, Missing]"
proof -
  have "read_sql_query env_mixed (sql_select_all (ascii ''mixed'')) = Inr df_mixed"
    by (simp add: env_mixed_def)
  moreover have "dtype (columns df_mixed ! 0) = Object"
    "cells (columns df_mixed ! 0) = [CStr (ascii '' ok''), CInt 7, CBytes [66]]"
    "cells (columns df_mixed_out ! 0) = [CStr (ascii ''ok''), Missing, Missing]"
    by (simp_all add: df_mixed_def df_mixed_out_def)
  moreover have "\<not> has_linebreak (CStr (ascii '' ok''))" "\<not> has_linebreak (CInt 7)"
    "\<not> has_linebreak (CBytes [66])"
    by (simp_all add: has_linebreak_def ascii_def LF_def CR_def)
  ultimately show ?thesis using mixed_run by blast
qed

text \<open>
  Claim C2, amended. In every file the export writes, every column keeps its number
  of cells, and for every cell: in a column whose dtype is not object the value
  written is the value read; in a column of dtype object the value written is, for a
  text, the text with every line feed and every carriage return replaced by a space
  and then stripped of white space at both ends, and for every other value the missing
  value. So in a column of dtype object a missing value is written as read, and so is
  a text that has no line feed, no carriage return and no white space at its start or
  end; a number or bytes are not.
\<close>

theorem export_cell_values:
  assumes "(p, out) \<in> set (csv_writes (snd (export_to_csv env k)))"
  shows "\<exists>tables t df. fetch_names env sql_table_names = Inr tables \<and> t \<in> set tables \<and>
           read_sql_query env (sql_select_all t) = Inr df \<and>
           length (columns out) = length (columns df) \<and>
           (\<forall>i<length (columns df).
              length (cells (columns out ! i)) = length (cells (columns df ! i)) \<and>
              (\<forall>j<length (cells (columns df ! i)).
                 (dtype (columns df ! i) \<noteq> Object \<longrightarrow>
                    cells (columns out ! i) ! j = cells (columns df ! i) ! j) \<and>
                 (dtype (columns df ! i) = Object \<longrightarrow>
                    cells (columns out ! i) ! j =
                      (case cells (columns df ! i) ! j of
                         CStr s \<Rightarrow>
                           CStr (str_strip (str_replace CR SPACE (str_replace LF SPACE s)))
                       | _ \<Rightarrow> Missing) \<and>
                    (cells (columns df ! i) ! j = Missing \<longrightarrow>
                       cells (columns out ! i) ! j = Missing) \<and>
                    (\<forall>s. cells (columns df ! i) ! j = CStr s \<and> LF \<notin> set s \<and> CR \<notin> set s \<and>
                         unpadded s \<longrightarrow> cells (columns out ! i) ! j = CStr s))))"
proof -
  from export_written_frame [OF assms] obtain tables t df where
    h: "fetch_names env sql_table_names = Inr tables" "t \<in> set tables"
       "read_sql_query env (sql_select_all t) = Inr df"
       "out = df\<lparr>columns := map (\<lambda>c. if dtype c = Object then cleaned c else c) (columns df)\<rparr>"
    by blast
  from h(4) have "length (columns out) = length (columns df)" by simp
  moreover from h(4) have
    "\<forall>i<length (columns df).
        length (cells (columns out ! i)) = length (cells (columns df ! i)) \<and>
        (\<forall>j<length (cells (columns df ! i)).
           (dtype (columns df ! i) \<noteq> Object \<longrightarrow>
              cells (columns out ! i) ! j = cells (columns df ! i) ! j) \<and>
           (dtype (columns df ! i) = Object \<longrightarrow>
              cells (columns out ! i) ! j =
                (case cells (columns df ! i) ! j of
                   CStr s \<Rightarrow> CStr (str_strip (str_replace CR SPACE (str_replace LF SPACE s)))
                 | _ \<Rightarrow> Missing) \<and>
              (cells (columns df ! i) ! j = Missing \<longrightarrow>
                 cells (columns out ! i) ! j = Missing) \<and>
              (\<forall>s. cells (columns df ! i) ! j = CStr s \<and> LF \<notin> set s \<and> CR \<notin> set s \<and>
                   unpadded s \<longrightarrow> cells (columns out ! i) ! j = CStr s)))"
    using clean_cell_keeps
    by (auto simp: cleaned_def clean_cell_cases [symmetric]) (simp_all add: clean_cell_def)
  ultimately show ?thesis using h(1-3) by blast
qed

theorem export_cell_values_witness:
  "(csv_notes, df_notes_out) \<in> set (csv_writes (snd (export_to_csv env_notes 1))) \<and>
   dtype (columns df_notes ! 0) = Int64 \<and>
   cells (columns df_notes ! 0) ! 0 = CInt 1 \<and>
   cells (columns df_notes_out ! 0) ! 0 = CInt 1 \<and>
   dtype (columns df_notes ! 1) = Object \<and>
   cells (columns df_notes ! 1) ! 0 = CStr [97, 10, 98, 32] \<and>
   cells (columns df_notes_out ! 1) ! 0 = CStr [97, 32, 98] \<and>
   cells (columns df_notes ! 1) ! 2 = CStr (ascii ''plain'') \<and>
   LF \<notin> set (ascii ''plain'') \<and> CR \<notin> set (ascii ''plain'') \<and> unpadded (ascii ''plain'') \<and>
   cells (columns df_notes_out ! 1) ! 2 = CStr (ascii ''plain'') \<and>
   (\<exists>tables t df. fetch_names env_notes sql_table_names = Inr tables \<and> t \<in> set tables \<and>
      read_sql_query env_notes (sql_select_all t) = Inr df \<and>
      length (columns df_notes_out) = length (columns df) \<and>
      (\<forall>i<length (columns df).
         length (cells (columns df_notes_out ! i)) = length (cells (columns df ! i)) \<and>
         (\<forall>j<length (cells (columns df ! i)).
            (dtype (columns df ! i) \<noteq> Object \<longrightarrow>
               cells (columns df_notes_out ! i) ! j = cells (columns df ! i) ! j) \<and>
            (dtype (columns df ! i) = Object \<longrightarrow>
               cells (columns df_notes_out ! i) ! j =
                 (case cells (columns df ! i) ! j of
                    CStr s \<Rightarrow> CStr (str_strip (str_replace CR SPACE (str_replace LF SPACE s)))
                  | _ \<Rightarrow> Missing) \<and>
               (cells (columns df ! i) ! j = Missing \<longrightarrow>
                  cells (columns df_notes_out ! i) ! j = Missing) \<and>
               (\<forall>s. cells (columns df ! i) ! j = CStr s \<and> LF \<notin> set s \<and> CR \<notin> set s \<and>
                    unpadded s \<longrightarrow> cells (columns df_notes_out ! i) ! j = CStr s)))))"
proof -
  have h: "(csv_notes, df_notes_out) \<in> set (csv_writes (snd (export_to_csv env_notes 1)))"
    unfolding notes_run by simp
  have "dtype (columns df_notes ! 0) = Int64" "cells (columns df_notes ! 0) ! 0 = CInt 1"
    "cells (columns df_notes_out ! 0) ! 0 = CInt 1" "dtype (columns df_notes ! 1) = Object"
    "cells (columns df_notes ! 1) ! 0 = CStr [97, 10, 98, 32]"
    "cells (columns df_notes_out ! 1) ! 0 = CStr [97, 32, 98]"
    "cells (columns df_notes ! 1) ! 2 = CStr (ascii ''plain'')"
    "cells (columns df_notes_out ! 1) ! 2 = CStr (ascii ''plain'')"
    by (simp_all add: df_notes_def df_notes_out_def)
  moreover have "LF \<notin> set (ascii ''plain'')" "CR \<notin> set (ascii ''plain'')"
    "unpadded (ascii ''plain'')"
    by (simp_all add: ascii_def LF_def CR_def unpadded_def isspace_def)
  ultimately show ?thesis
    using h export_cell_values [OF h] by (intro conjI) assumption+
qed

subsection \<open>The files the export writes\<close>

text \<open>
  Claim C7, as stated, fails in three ways.
  \<^item> The name of the file: the export replaces every space of the table's name by an
    underscore. For the table \<^verbatim>\<open>Automotive Security Attacks\<close> the one file written is
    \<^verbatim>\<open>AAD_Automotive_Security_Attacks_20240101_000000.csv\<close>, which does not contain the
    table's name.
  \<^item> One file for each table: the tables \<^verbatim>\<open>a b\<close> and \<^verbatim>\<open>a_b\<close>, exported within one second,
    are both written to \<^verbatim>\<open>AAD_a_b_20240101_000000.csv\<close>; the \<^verbatim>\<open>try\<close> block raises nothing and
    two tables leave one file.
  \<^item> A file for each table: when \<^verbatim>\<open>to_csv\<close> raises (the directory cannot be written), the
    handler ends the loop and the table \<^verbatim>\<open>notes\<close> gets no file.
\<close>

theorem export_files_counterexample:
  "fetch_names env_attacks sql_table_names = Inr [attacks] \<and>
   map fst (csv_writes (snd (export_to_csv env_attacks 1))) = [[ascii ''exports'', csv_attacks]] \<and>
   \<not> str_contains attacks csv_attacks \<and>
   fetch_names env_collide sql_table_names = Inr [ascii ''a b'', ascii ''a_b''] \<and>
   fst (export_to_csv_try env_collide 1) = Inr () \<and>
   map fst (csv_writes (snd (export_to_csv env_collide 1))) = [csv_a_b, csv_a_b] \<and>
   fetch_names env_nowrite sql_table_names = Inr [ascii ''notes''] \<and>
   csv_writes (snd (export_to_csv env_nowrite 1)) = []"
proof -
  have "fetch_names env_attacks sql_table_names = Inr [attacks]"
    "fetch_names env_collide sql_table_names = Inr [ascii ''a b'', ascii ''a_b'']"
    "fetch_names env_nowrite sql_table_names = Inr [ascii ''notes'']"
    by (simp_all add: env_attacks_def env_collide_def env_nowrite_def env_notes_def)
  then show ?thesis
    using attacks_run attacks_name collide_run nowrite_no_file by (intro conjI) assumption+
qed

text \<open>
  Claim C7, amended. When the directory \<^verbatim>\<open>exports\<close> can be created, the connection
  opened, and the \<^verbatim>\<open>try\<close> block of \<^verbatim>\<open>export_to_csv\<close> raises no exception, the export writes
  with \<^verbatim>\<open>to_csv\<close>, for each enumerated table in the order of enumeration, the frame loaded
  and cleaned for that table to a file of the directory \<^verbatim>\<open>exports\<close> named \<^verbatim>\<open>AAD_\<close>, the
  table's name with every space replaced by an underscore, \<^verbatim>\<open>_\<close>, the time stamp read for
  that table, \<^verbatim>\<open>.csv\<close>. These are as many files as tables, exactly one for each, when the
  names with spaces replaced are pairwise different (the time stamps having one length,
  as the format gives them).
\<close>

theorem export_one_file_per_table:
  assumes "mkdir env OUTPUT_DIR = None" and "sqlite3_connect env = None"
    and "fst (export_to_csv_try env k) = Inr ()"
  shows "\<exists>tables outs.
           fetch_names env sql_table_names = Inr tables \<and>
           length outs = length tables \<and>
           csv_writes (snd (export_to_csv env k)) =
             zip (map (\<lambda>(i, t). OUTPUT_DIR @
                          [ascii ''AAD_'' @ str_replace SPACE UNDERSCORE t @ ascii ''_'' @
                           strftime_now env i @ ascii ''.csv''])
                      (zip [k ..< k + length tables] tables))
                 outs \<and>
           (\<forall>n<length tables. \<exists>df.
              read_sql_query env (sql_select_all (tables ! n)) = Inr df \<and>
              outs ! n =
                df\<lparr>columns := map (\<lambda>c. if dtype c = Object then cleaned c else c) (columns df)\<rparr>) \<and>
           ((\<forall>i j. length (strftime_now env i) = length (strftime_now env j)) \<and>
            distinct (map (str_replace SPACE UNDERSCORE) tables) \<longrightarrow>
              distinct (map fst (csv_writes (snd (export_to_csv env k)))) \<and>
              length (csv_writes (snd (export_to_csv env k))) = length tables)"
proof -
  from export_to_csv_try_ok [OF assms(3)] obtain tables where
    n: "fetch_names env sql_table_names = Inr tables" and
    ok: "fst (export_tables env k tables) = Inr ()"
    by blast
  let ?ps = "map (csv_path env) (zip [k ..< k + length tables] tables)"
  have p: "csv_path env = (\<lambda>(i, t). OUTPUT_DIR @
          [ascii ''AAD_'' @ str_replace SPACE UNDERSCORE t @ ascii ''_'' @
           strftime_now env i @ ascii ''.csv''])"
    by (simp add: csv_path_def csv_filename_def)
  from export_tables_frames [OF ok] obtain outs where
    l: "length outs = length tables" and
    w: "csv_writes (snd (export_tables env k tables)) = zip ?ps outs" and
    fr: "\<forall>n<length tables. \<exists>df. read_sql_query env (sql_select_all (tables ! n)) = Inr df \<and>
           fst (clean_columns env (map cname (columns df)) df) = Inr (outs ! n)"
    by blast
  have w': "csv_writes (snd (export_to_csv env k)) = zip ?ps outs"
    using assms(1,2) n w by (simp add: export_to_csv_writes export_to_csv_try_writes)
  have fr': "\<forall>n<length tables. \<exists>df.
      read_sql_query env (sql_select_all (tables ! n)) = Inr df \<and>
      outs ! n =
        df\<lparr>columns := map (\<lambda>c. if dtype c = Object then cleaned c else c) (columns df)\<rparr>"
  proof (intro allI impI)
    fix m assume "m < length tables"
    with fr obtain df where
      df: "read_sql_query env (sql_select_all (tables ! m)) = Inr df" and
      c: "fst (clean_columns env (map cname (columns df)) df) = Inr (outs ! m)"
      by blast
    have "map (clean_named (set (map cname (columns df)))) (columns df) =
          map (\<lambda>c. if dtype c = Object then cleaned c else c) (columns df)"
      by (simp add: clean_named_def)
    with clean_columns_Inr [OF c] df
    show "\<exists>df. read_sql_query env (sql_select_all (tables ! m)) = Inr df \<and>
      outs ! m =
        df\<lparr>columns := map (\<lambda>c. if dtype c = Object then cleaned c else c) (columns df)\<rparr>"
      by auto
  qed
  have f: "map fst (zip ?ps outs) = ?ps" using l by simp
  have d: "distinct (map fst (csv_writes (snd (export_to_csv env k)))) \<and>
           length (csv_writes (snd (export_to_csv env k))) = length tables"
    if "\<forall>i j. length (strftime_now env i) = length (strftime_now env j)"
      "distinct (map (str_replace SPACE UNDERSCORE) tables)"
    using csv_paths_distinct [OF that, of k] l unfolding w' f by simp
  from n l w' fr' d show ?thesis unfolding p by blast
qed

theorem export_one_file_per_table_witness:
  "mkdir env_two OUTPUT_DIR = None \<and> sqlite3_connect env_two = None \<and>
   fst (export_to_csv_try env_two 1) = Inr () \<and>
   fetch_names env_two sql_table_names = Inr [ascii ''notes'', ascii ''a b''] \<and>
   distinct (map (str_replace SPACE UNDERSCORE) [ascii ''notes'', ascii ''a b'']) \<and>
   csv_writes (snd (export_to_csv env_two 1)) =
     [(csv_notes, df_notes_out), (csv_a_b, df_notes_out)] \<and>
   distinct (map fst (csv_writes (snd (export_to_csv env_two 1)))) \<and>
   length (csv_writes (snd (export_to_csv env_two 1))) = 2"
proof -
  have h: "mkdir env_two OUTPUT_DIR = None" "sqlite3_connect env_two = None"
    by (simp_all add: env_two_def env_notes_def)
  have n: "fetch_names env_two sql_table_names = Inr [ascii ''notes'', ascii ''a b'']"
    by (simp add: env_two_def)
  have s: "\<forall>i j. length (strftime_now env_two i) = length (strftime_now env_two j)"
    by (simp add: env_two_def env_notes_def)
  have d: "distinct (map (str_replace SPACE UNDERSCORE) [ascii ''notes'', ascii ''a b''])"
    by (simp add: str_replace_def ascii_def SPACE_def UNDERSCORE_def)
  from export_one_file_per_table [OF h two_try] n s d
  have "distinct (map fst (csv_writes (snd (export_to_csv env_two 1)))) \<and>
        length (csv_writes (snd (export_to_csv env_two 1))) = length [ascii ''notes'', ascii ''a b'']"
    by auto
  then show ?thesis using h two_try n d two_run by simp
qed

subsection \<open>The load stage\<close>



subsection \<open>A missing database file\<close>




subsection \<open>Connections\<close>

text \<open>
  Claim C1, as stated, fails: each stage opens a connection of its own with
  \<^verbatim>\<open>sqlite3.connect(DB_PATH)\<close>, which is sqlite3's default read-write mode, and closes it
  at its end. A run on a database with the one table \<^verbatim>\<open>Automotive Security Attacks\<close> opens
  and closes four connections, none of them read-only.
\<close>

theorem four_connections_counterexample:
  "db_exists env_attacks \<and>
   fst (program env_attacks) = Inr () \<and>
   connection_events (snd (program env_attacks)) =
     [Connect DB_PATH ReadWriteCreate, Close, Connect DB_PATH ReadWriteCreate, Close,
      Connect DB_PATH ReadWriteCreate, Close, Connect DB_PATH ReadWriteCreate, Close]"
  using attacks_stages program_connections [OF attacks_stages attacks_directory]
    program_completes [OF attacks_stages attacks_directory]
  by (simp add: eval_nat_numeral)

text \<open>
  Claim C1, amended. On an invocation where the database file exists and no exception
  escapes, the program opens four connections to the source database, one per stage,
  each in sqlite3's default read-write mode and each closed before the next is opened;
  every statement the program sends is a \<^verbatim>\<open>SELECT\<close> or a \<^verbatim>\<open>PRAGMA table_info\<close>.
\<close>

theorem one_connection_per_stage:
  assumes "db_exists env" and "fst (program env) = Inr ()"
  shows "connection_events (snd (program env)) =
           concat (replicate 4 [Connect DB_PATH ReadWriteCreate, Close]) \<and>
         (\<forall>sql\<in>set (executed (snd (program env))). is_query sql)"
proof -
  from program_Inr [OF assms] obtain d where
    "fst (inspect_database env) = Inr ()" "fst (load_data env) = Inr d"
    "mkdir env OUTPUT_DIR = None"
    by blast
  with assms(1) have "connection_events (snd (program env)) =
           concat (replicate 4 [Connect DB_PATH ReadWriteCreate, Close])"
    by (rule program_connections)
  moreover have "\<forall>sql\<in>set (executed (snd (program env))). is_query sql"
    using program_reads [of _ env] by (auto simp: in_executed reads_def)
  ultimately show ?thesis by blast
qed

theorem one_connection_per_stage_witness:
  "db_exists env_attacks \<and> fst (program env_attacks) = Inr () \<and>
   connection_events (snd (program env_attacks)) =
     concat (replicate 4 [Connect DB_PATH ReadWriteCreate, Close]) \<and>
   list_all is_query (executed (snd (program env_attacks)))"
proof -
  have h: "db_exists env_attacks" "fst (program env_attacks) = Inr ()"
    using attacks_stages program_completes [OF attacks_stages attacks_directory] by simp_all
  show ?thesis using h one_connection_per_stage [OF h] by (simp add: list_all_iff)
qed

subsection \<open>The order of the stages\<close>

text \<open>
  Claim C5, as stated, fails: the first two stages have no exception handler, and
  neither has the \<^verbatim>\<open>__main__\<close> block. When the file exists and is no database, the first
  statement of \<^verbatim>\<open>inspect_database\<close> raises, the run ends with that exception, and the
  other three stages never begin.
\<close>
theorem skipped_stages_counterexample:
  "db_exists env_notdb \<and>
   fst (program env_notdb) = Inl not_a_database \<and>
   stages_begun (snd (program env_notdb)) = [''INSPECTING DATABASE STRUCTURE'']"
  using notdb_run by blast

text \<open>
  Claim C5, amended. On an invocation where the database file exists and neither
  \<^verbatim>\<open>inspect_database\<close> nor \<^verbatim>\<open>load_data\<close> raises, the trace of the run is the prelude, then
  the trace of each of the four stages, once, in the order schema inspection, bulk
  load, aggregate queries, CSV export; each stage's part is what that stage does on its
  own (no stage uses what another returned), and the stage titles logged are the four,
  in that order. The run ends as the export stage ends: normally, with the closing
  line printed last, when the directory \<^verbatim>\<open>exports\<close> can be created.
\<close>

theorem stages_in_order:
  assumes "db_exists env" and "fst (inspect_database env) = Inr ()"
    and "fst (load_data env) = Inr d"
  shows "program env =
           (fst (export_to_csv env 1),
            prelude env @ snd (inspect_database env) @ snd (load_data env) @
            snd (example_queries env) @ snd (export_to_csv env 1) @
            (case fst (export_to_csv env 1) of
               Inl e \<Rightarrow> []
             | Inr u \<Rightarrow> [Print [Lit (NL # ''Analysis complete! Results saved to: ''),
                                 PathP (LOG_FILE env)]])) \<and>
         stages_begun (snd (program env)) =
           [''INSPECTING DATABASE STRUCTURE'', ''LOADING DATA INTO PANDAS'',
            ''EXAMPLE QUERIES'', ''EXPORTING DATA TO CSV''] \<and>
         (mkdir env OUTPUT_DIR = None \<longrightarrow>
            program env =
              (Inr (),
               prelude env @ snd (inspect_database env) @ snd (load_data env) @
               snd (example_queries env) @ snd (export_to_csv env 1) @
               [Print [Lit (NL # ''Analysis complete! Results saved to: ''),
                       PathP (LOG_FILE env)]]))"
  using program_runs [OF assms] program_stages [OF assms] program_completes [OF assms]
  by (simp add: stage_titles_def)

theorem stages_in_order_witness:
  "db_exists env_attacks \<and> fst (inspect_database env_attacks) = Inr () \<and>
   fst (load_data env_attacks) = Inr [attacks \<mapsto> df_attacks] \<and>
   mkdir env_attacks OUTPUT_DIR = None \<and>
   program env_attacks =
     (Inr (),
      prelude env_attacks @ snd (inspect_database env_attacks) @ snd (load_data env_attacks) @
      snd (example_queries env_attacks) @ snd (export_to_csv env_attacks 1) @
      [Print [Lit (NL # ''Analysis complete! Results saved to: ''),
              PathP (LOG_FILE env_attacks)]]) \<and>
   stages_begun (snd (program env_attacks)) =
     [''INSPECTING DATABASE STRUCTURE'', ''LOADING DATA INTO PANDAS'',
      ''EXAMPLE QUERIES'', ''EXPORTING DATA TO CSV'']"
proof -
  note a = stages_in_order [OF attacks_stages]
  note a2 = a [THEN conjunct2, THEN conjunct1]
  note a3 = a [THEN conjunct2, THEN conjunct2, THEN mp, OF attacks_directory]
  show ?thesis
    by (intro conjI) (rule attacks_stages attacks_directory a2 a3)+
qed

subsection \<open>Exceptions in the stages\<close>

text \<open>
  Claim C4, as stated, fails: not every exception raised inside the two stages is
  caught. \<^verbatim>\<open>OUTPUT_DIR.mkdir(exist_ok=True)\<close> and \<^verbatim>\<open>sqlite3.connect(DB_PATH)\<close> stand before
  the \<^verbatim>\<open>try\<close>. With a regular file named \<^verbatim>\<open>exports\<close> the export stage raises
  \<^verbatim>\<open>FileExistsError\<close> after logging its title: nothing catches it, no error message is
  logged, no connection is opened or closed, and the run ends with the exception
  instead of running to completion.
\<close>

theorem uncaught_export_error_counterexample:
  "db_exists env_blocked \<and>
   fst (inspect_database env_blocked) = Inr () \<and>
   fst (load_data env_blocked) = Inr [ascii ''notes'' \<mapsto> df_notes] \<and>
   export_to_csv env_blocked 1 =
     (Inl file_exists, snd (banner env_blocked ''EXPORTING DATA TO CSV'')) \<and>
   appended (LOG_FILE env_blocked) (snd (export_to_csv env_blocked 1)) =
     [[Lit rule60, Lit [NL]], [Lit ''EXPORTING DATA TO CSV'', Lit [NL]], [Lit rule60, Lit [NL]]] \<and>
   connection_events (snd (export_to_csv env_blocked 1)) = [] \<and>
   fst (program env_blocked) = Inl file_exists"
proof -
  have "fst (program env_blocked) = Inl file_exists"
    using program_runs [OF blocked_run(1,3,4)] blocked_run(2) by simp
  moreover have
    "appended (LOG_FILE env_blocked) (snd (export_to_csv env_blocked 1)) =
       [[Lit rule60, Lit [NL]], [Lit ''EXPORTING DATA TO CSV'', Lit [NL]],
        [Lit rule60, Lit [NL]]]"
    "connection_events (snd (export_to_csv env_blocked 1)) = []"
    unfolding blocked_run(2) by simp_all
  ultimately show ?thesis
    using blocked_run(1-4) by (intro conjI) assumption+
qed

text \<open>
  Claim C4, amended. Once its connection is open (and, for the export, the directory
  \<^verbatim>\<open>exports\<close> created), \<^verbatim>\<open>example_queries\<close> and \<^verbatim>\<open>export_to_csv\<close> return normally with the
  connection closed as their last act; when the body of their \<^verbatim>\<open>try\<close> block raises, the
  handler logs the error (the export also prints it) right after the events of the
  body, and then the connection is closed. An exception raised before the \<^verbatim>\<open>try\<close>, by
  \<^verbatim>\<open>sqlite3.connect\<close> or by the creation of \<^verbatim>\<open>exports\<close>, is not caught: the stage ends with
  it, nothing more logged. A run whose first two stages do not raise goes through the
  query stage and the export stage, whatever their \<^verbatim>\<open>try\<close> blocks raise, and reaches its
  closing line when \<^verbatim>\<open>exports\<close> can be created. The first two stages have no handling at
  all: they return only when every statement they sent was answered, and an exception
  in them ends the run there, the stage's connection never closed.
\<close>

theorem query_and_export_errors_are_caught:
  "(sqlite3_connect env = None \<longrightarrow>
      fst (example_queries env) = Inr () \<and> last (snd (example_queries env)) = Close) \<and>
   (sqlite3_connect env = None \<and> fst (example_queries_try env) = Inl e3 \<longrightarrow>
      snd (example_queries env) =
        snd (banner env ''EXAMPLE QUERIES'') @ [Connect DB_PATH ReadWriteCreate] @
        snd (example_queries_try env) @
        [Append (LOG_FILE env) [Lit ''Query error: '', Err e3, Lit [NL]], Close]) \<and>
   (sqlite3_connect env = Some c3 \<longrightarrow>
      example_queries env = (Inl c3, snd (banner env ''EXAMPLE QUERIES''))) \<and>
   (mkdir env OUTPUT_DIR = None \<and> sqlite3_connect env = None \<longrightarrow>
      fst (export_to_csv env k) = Inr () \<and> last (snd (export_to_csv env k)) = Close) \<and>
   (mkdir env OUTPUT_DIR = None \<and> sqlite3_connect env = None \<and>
    fst (export_to_csv_try env k) = Inl e4 \<longrightarrow>
      snd (export_to_csv env k) =
        snd (banner env ''EXPORTING DATA TO CSV'') @
        [Mkdir OUTPUT_DIR, Connect DB_PATH ReadWriteCreate] @
        snd (export_to_csv_try env k) @
        [Append (LOG_FILE env) [Lit ''Export error: '', Err e4, Lit [NL]],
         Print [Lit ''Export error: '', Err e4], Close]) \<and>
   (mkdir env OUTPUT_DIR = Some m4 \<longrightarrow>
      export_to_csv env k = (Inl m4, snd (banner env ''EXPORTING DATA TO CSV''))) \<and>
   (mkdir env OUTPUT_DIR = None \<and> sqlite3_connect env = Some c4 \<longrightarrow>
      export_to_csv env k =
        (Inl c4, snd (banner env ''EXPORTING DATA TO CSV'') @ [Mkdir OUTPUT_DIR])) \<and>
   (db_exists env \<and> fst (inspect_database env) = Inr () \<and> fst (load_data env) = Inr d \<longrightarrow>
      program env =
        (fst (export_to_csv env 1),
         prelude env @ snd (inspect_database env) @ snd (load_data env) @
         snd (example_queries env) @ snd (export_to_csv env 1) @
         (case fst (export_to_csv env 1) of
            Inl e \<Rightarrow> []
          | Inr u \<Rightarrow> [Print [Lit (NL # ''Analysis complete! Results saved to: ''),
                              PathP (LOG_FILE env)]]))) \<and>
   (db_exists env \<and> fst (inspect_database env) = Inr () \<and> fst (load_data env) = Inr d \<and>
    mkdir env OUTPUT_DIR = None \<longrightarrow>
      program env =
        (Inr (),
         prelude env @ snd (inspect_database env) @ snd (load_data env) @
         snd (example_queries env) @ snd (export_to_csv env 1) @
         [Print [Lit (NL # ''Analysis complete! Results saved to: ''), PathP (LOG_FILE env)]])) \<and>
   (fst (inspect_database env) = Inr () \<longrightarrow>
      (\<exists>tables. fetch_names env sql_table_names = Inr tables \<and>
         (\<forall>t\<in>set tables. \<exists>cols n. fetch_columns env (sql_table_info t) = Inr cols \<and>
                                    fetch_count env (sql_count t) = Inr n))) \<and>
   (fst (load_data env) = Inr d \<longrightarrow>
      (\<exists>tables. fetch_names env sql_table_names = Inr tables \<and>
         (\<forall>t\<in>set tables. \<exists>df. read_sql_query env (sql_select_all t) = Inr df))) \<and>
   (db_exists env \<and> fst (inspect_database env) = Inl e1 \<longrightarrow>
      program env = (Inl e1, prelude env @ snd (inspect_database env)) \<and>
      Close \<notin> set (snd (program env))) \<and>
   (db_exists env \<and> fst (inspect_database env) = Inr () \<and> fst (load_data env) = Inl e2 \<longrightarrow>
      program env = (Inl e2, prelude env @ snd (inspect_database env) @ snd (load_data env)) \<and>
      last (snd (program env)) \<noteq> Close)"
proof -
  have 0: "fst (example_queries env) = Inr () \<and> last (snd (example_queries env)) = Close"
    if "sqlite3_connect env = None"
    using example_queries_shape [OF that]
      stage_shape_projections(3) [OF _ stage_titles_mem(3)] by blast
  have 3: "fst (export_to_csv env k) = Inr () \<and> last (snd (export_to_csv env k)) = Close"
    if "mkdir env OUTPUT_DIR = None" "sqlite3_connect env = None"
    using export_to_csv_shape [OF that]
      stage_shape_projections(3) [OF _ stage_titles_mem(4)] by blast
  have 11: "program env = (Inl e1, prelude env @ snd (inspect_database env)) \<and>
      Close \<notin> set (snd (program env))"
    if "db_exists env" "fst (inspect_database env) = Inl e1"
    using program_stage1_raises [OF that] inspect_database_open [OF that(2)]
    by (simp add: prelude_def)
  have 12: "program env =
        (Inl e2, prelude env @ snd (inspect_database env) @ snd (load_data env)) \<and>
      last (snd (program env)) \<noteq> Close"
    if "db_exists env" "fst (inspect_database env) = Inr ()" "fst (load_data env) = Inl e2"
    using program_stage2_raises [OF that] load_data_open [OF that(3)] by simp
  show ?thesis
    using 0 3 11 12 example_queries_caught [of env e3] example_queries_unconnected [of env c3]
      export_to_csv_caught [of env k e4] export_to_csv_no_directory [of env m4 k]
      export_to_csv_unconnected [of env c4 k] program_runs [of env d]
      program_completes [of env d] inspect_database_Inr [of env] load_data_Inr [of env d]
    by blast
qed

theorem query_and_export_errors_are_caught_witness:
  "sqlite3_connect env_nowrite = None \<and> mkdir env_nowrite OUTPUT_DIR = None \<and>
   fst (example_queries_try env_nowrite) = Inl no_such_table \<and>
   fst (example_queries env_nowrite) = Inr () \<and>
   last (snd (example_queries env_nowrite)) = Close \<and>
   snd (example_queries env_nowrite) =
     snd (banner env_nowrite ''EXAMPLE QUERIES'') @ [Connect DB_PATH ReadWriteCreate] @
     snd (example_queries_try env_nowrite) @
     [Append (LOG_FILE env_nowrite) [Lit ''Query error: '', Err no_such_table, Lit [NL]], Close] \<and>
   fst (export_to_csv_try env_nowrite 1) = Inl denied \<and>
   fst (export_to_csv env_nowrite 1) = Inr () \<and>
   last (snd (export_to_csv env_nowrite 1)) = Close \<and>
   snd (export_to_csv env_nowrite 1) =
     snd (banner env_nowrite ''EXPORTING DATA TO CSV'') @
     [Mkdir OUTPUT_DIR, Connect DB_PATH ReadWriteCreate] @
     snd (export_to_csv_try env_nowrite 1) @
     [Append (LOG_FILE env_nowrite) [Lit ''Export error: '', Err denied, Lit [NL]],
      Print [Lit ''Export error: '', Err denied], Close] \<and>
   db_exists env_nowrite \<and> fst (inspect_database env_nowrite) = Inr () \<and>
   fst (load_data env_nowrite) = Inr [ascii ''notes'' \<mapsto> df_notes] \<and>
   program env_nowrite =
     (Inr (),
      prelude env_nowrite @ snd (inspect_database env_nowrite) @ snd (load_data env_nowrite) @
      snd (example_queries env_nowrite) @ snd (export_to_csv env_nowrite 1) @
      [Print [Lit (NL # ''Analysis complete! Results saved to: ''),
              PathP (LOG_FILE env_nowrite)]]) \<and>
   (\<exists>tables. fetch_names env_nowrite sql_table_names = Inr tables \<and>
      (\<forall>t\<in>set tables. \<exists>cols n. fetch_columns env_nowrite (sql_table_info t) = Inr cols \<and>
                                 fetch_count env_nowrite (sql_count t) = Inr n)) \<and>
   (\<exists>tables. fetch_names env_nowrite sql_table_names = Inr tables \<and>
      (\<forall>t\<in>set tables. \<exists>df. read_sql_query env_nowrite (sql_select_all t) = Inr df)) \<and>
   sqlite3_connect env_unopenable = Some unable_to_open \<and>
   mkdir env_unopenable OUTPUT_DIR = None \<and>
   example_queries env_unopenable =
     (Inl unable_to_open, snd (banner env_unopenable ''EXAMPLE QUERIES'')) \<and>
   export_to_csv env_unopenable 1 =
     (Inl unable_to_open,
      snd (banner env_unopenable ''EXPORTING DATA TO CSV'') @ [Mkdir OUTPUT_DIR]) \<and>
   db_exists env_blocked \<and> fst (inspect_database env_blocked) = Inr () \<and>
   fst (load_data env_blocked) = Inr [ascii ''notes'' \<mapsto> df_notes] \<and>
   mkdir env_blocked OUTPUT_DIR = Some file_exists \<and>
   export_to_csv env_blocked 1 =
     (Inl file_exists, snd (banner env_blocked ''EXPORTING DATA TO CSV'')) \<and>
   program env_blocked =
     (fst (export_to_csv env_blocked 1),
      prelude env_blocked @ snd (inspect_database env_blocked) @ snd (load_data env_blocked) @
      snd (example_queries env_blocked) @ snd (export_to_csv env_blocked 1) @
      (case fst (export_to_csv env_blocked 1) of
         Inl e \<Rightarrow> []
       | Inr u \<Rightarrow> [Print [Lit (NL # ''Analysis complete! Results saved to: ''),
                           PathP (LOG_FILE env_blocked)]])) \<and>
   db_exists env_notdb \<and> fst (inspect_database env_notdb) = Inl not_a_database \<and>
   program env_notdb = (Inl not_a_database, prelude env_notdb @ snd (inspect_database env_notdb)) \<and>
   Close \<notin> set (snd (program env_notdb)) \<and>
   db_exists env_damaged \<and> fst (inspect_database env_damaged) = Inr () \<and>
   fst (load_data env_damaged) = Inl malformed \<and>
   program env_damaged =
     (Inl malformed,
      prelude env_damaged @ snd (inspect_database env_damaged) @ snd (load_data env_damaged)) \<and>
   last (snd (program env_damaged)) \<noteq> Close"
proof -
  note a = query_and_export_errors_are_caught
    [where env = env_nowrite and ?e3.0 = no_such_table and k = 1 and ?e4.0 = denied
       and d = "[ascii ''notes'' \<mapsto> df_notes]"]
  note u = query_and_export_errors_are_caught
    [where env = env_unopenable and ?c3.0 = unable_to_open and ?c4.0 = unable_to_open and k = 1]
  note b = query_and_export_errors_are_caught
    [where env = env_blocked and ?m4.0 = file_exists and k = 1
       and d = "[ascii ''notes'' \<mapsto> df_notes]"]
  note n = query_and_export_errors_are_caught [where env = env_notdb and ?e1.0 = not_a_database]
  note c = query_and_export_errors_are_caught [where env = env_damaged and ?e2.0 = malformed]
  note o = nowrite_oracles
  note h = nowrite_stages
  note a0 = a [THEN conjunct1, THEN mp, OF o(1)]
  note a1 = a [THEN conjunct2, THEN conjunct1, THEN mp, OF conjI [OF o(1) nowrite_queries]]
  note a3 = a [THEN conjunct2, THEN conjunct2, THEN conjunct2, THEN conjunct1, THEN mp, OF conjI [OF o(2) o(1)]]
  note a4 = a [THEN conjunct2, THEN conjunct2, THEN conjunct2, THEN conjunct2, THEN conjunct1, THEN mp, OF conjI [OF o(2) conjI [OF o(1) nowrite_export]]]
  note a8 = a [THEN conjunct2, THEN conjunct2, THEN conjunct2, THEN conjunct2, THEN conjunct2, THEN conjunct2, THEN conjunct2, THEN conjunct2, THEN conjunct1, THEN mp,
    OF conjI [OF h(1) conjI [OF h(2) conjI [OF h(3) o(2)]]]]
  note a9 = a [THEN conjunct2, THEN conjunct2, THEN conjunct2, THEN conjunct2, THEN conjunct2, THEN conjunct2, THEN conjunct2, THEN conjunct2, THEN conjunct2, THEN conjunct1, THEN mp, OF h(2)]
  note a10 = a [THEN conjunct2, THEN conjunct2, THEN conjunct2, THEN conjunct2, THEN conjunct2, THEN conjunct2, THEN conjunct2, THEN conjunct2, THEN conjunct2, THEN conjunct2, THEN conjunct1, THEN mp, OF h(3)]
  note u2 = u [THEN conjunct2, THEN conjunct2, THEN conjunct1, THEN mp, OF unopenable_run(1)]
  note u6 = u [THEN conjunct2, THEN conjunct2, THEN conjunct2, THEN conjunct2, THEN conjunct2, THEN conjunct2, THEN conjunct1, THEN mp, OF conjI [OF unopenable_run(2) unopenable_run(1)]]
  note b5 = b [THEN conjunct2, THEN conjunct2, THEN conjunct2, THEN conjunct2, THEN conjunct2, THEN conjunct1, THEN mp, OF blocked_run(5)]
  note b7 = b [THEN conjunct2, THEN conjunct2, THEN conjunct2, THEN conjunct2, THEN conjunct2, THEN conjunct2, THEN conjunct2, THEN conjunct1, THEN mp,
    OF conjI [OF blocked_run(1) conjI [OF blocked_run(3) blocked_run(4)]]]
  note n11 = n [THEN conjunct2, THEN conjunct2, THEN conjunct2, THEN conjunct2, THEN conjunct2, THEN conjunct2, THEN conjunct2, THEN conjunct2, THEN conjunct2, THEN conjunct2, THEN conjunct2, THEN conjunct1, THEN mp, OF conjI [OF notdb_run(1) notdb_stage1]]
  note c12 = c [THEN conjunct2, THEN conjunct2, THEN conjunct2, THEN conjunct2, THEN conjunct2, THEN conjunct2, THEN conjunct2, THEN conjunct2, THEN conjunct2, THEN conjunct2, THEN conjunct2, THEN conjunct2, THEN mp,
    OF conjI [OF damaged_run(1) conjI [OF damaged_run(2) damaged_run(3)]]]
  show ?thesis
    by (intro conjI)
       (rule o nowrite_queries nowrite_export h a0 [THEN conjunct1] a0 [THEN conjunct2] a1
          a3 [THEN conjunct1] a3 [THEN conjunct2] a4 a8 a9 a10 unopenable_run u2 u6
          blocked_run(1,3,4,5) b5 b7 notdb_run(1) notdb_stage1 n11 [THEN conjunct1]
          n11 [THEN conjunct2] damaged_run c12 [THEN conjunct1] c12 [THEN conjunct2])+
qed

subsection \<open>The fixed queries\<close>

text \<open>
  Claim C6, as stated, fails: the four queries run inside one \<^verbatim>\<open>try\<close> block, so the first
  that raises ends the block. On a database without the table \<^verbatim>\<open>Automotive Security Attacks\<close>
  (here: with the one table \<^verbatim>\<open>notes\<close>) the stage sends one statement and logs no result,
  only its title and the error.
\<close>

theorem one_query_counterexample:
  "sqlite3_connect env_notes = None \<and>
   fst (example_queries_try env_notes) = Inl no_such_table \<and>
   executed (snd (example_queries env_notes)) = [sql_first5] \<and>
   appended (LOG_FILE env_notes) (snd (example_queries env_notes)) =
     [[Lit rule60, Lit [NL]], [Lit ''EXAMPLE QUERIES'', Lit [NL]], [Lit rule60, Lit [NL]],
      [Lit ''Query error: '', Err no_such_table, Lit [NL]]]"
proof -
  have f: "fst (example_queries_try env_notes) = Inl no_such_table"
    using notes_first_query by (rule first_query_raises)
  have t: "snd (example_queries_try env_notes) = [Execute sql_first5]"
    using notes_first_query by (rule first_query_raises_trace)
  show ?thesis
    using f notes_connect by (simp add: example_queries_caught [OF f notes_connect] t)
qed

text \<open>
  Claim C6, amended. The aggregate-reporter stage sends at most four statements, always
  an initial part of the fixed sequence: the row sample, the count grouped by year, the
  count grouped by attack type, the count grouped by violated security property, each
  with the clause \<^verbatim>\<open>FROM "Automotive Security Attacks"\<close>. With the connection open it sends
  at least the first; when the connection cannot be opened it sends none. When none of
  them raises and the clean-up of the years does not raise, all four are sent in that
  order, and after each the formatted result is written to the log (for the years, the
  frame regrouped by the four-digit year). When one raises, the error is written to the
  log in place of the results that remain.
\<close>

theorem four_fixed_queries:
  "(sqlite3_connect env = None \<longrightarrow>
      executed (snd (example_queries env)) = [sql_first5] \<or>
      executed (snd (example_queries env)) = [sql_first5, sql_by_year] \<or>
      executed (snd (example_queries env)) = [sql_first5, sql_by_year, sql_types] \<or>
      executed (snd (example_queries env)) = [sql_first5, sql_by_year, sql_types, sql_props]) \<and>
   (sqlite3_connect env = Some c \<longrightarrow> executed (snd (example_queries env)) = []) \<and>
   list_all (str_contains from_attacks) [sql_first5, sql_by_year, sql_types, sql_props] \<and>
   (sqlite3_connect env = None \<and> fst (example_queries_try env) = Inr () \<longrightarrow>
      executed (snd (example_queries env)) = [sql_first5, sql_by_year, sql_types, sql_props] \<and>
      (\<exists>df y year year' g ty pr.
         read_sql_query env sql_first5 = Inr df \<and>
         read_sql_query env sql_by_year = Inr y \<and>
         getitem y (ascii ''Year'') ''str'' = Inr year \<and>
         str_extract env year_pattern year = Inr year' \<and>
         groupby_sum env (ascii ''Year'') (ascii ''Count'') (setitem y (ascii ''Year'') year')
           = Inr g \<and>
         read_sql_query env sql_types = Inr ty \<and>
         read_sql_query env sql_props = Inr pr \<and>
         snd (example_queries_try env) =
           [Execute sql_first5,
            Append (LOG_FILE env) [Lit (NL # ''First 5 attacks:''), Lit [NL]],
            Append (LOG_FILE env) [Frame df, Lit [NL]],
            Append (LOG_FILE env) [Lit (NL # rule60), Lit [NL]],
            Append (LOG_FILE env) [Lit ''Attacks by Year:'', Lit [NL]],
            Append (LOG_FILE env) [Lit rule60, Lit [NL]],
            Execute sql_by_year,
            Append (LOG_FILE env) [FrameNoIndex g, Lit [NL]],
            Append (LOG_FILE env) [Lit (NL # rule60), Lit [NL]],
            Append (LOG_FILE env) [Lit ''Top 10 Attack Types:'', Lit [NL]],
            Append (LOG_FILE env) [Lit rule60, Lit [NL]],
            Execute sql_types,
            Append (LOG_FILE env) [Frame ty, Lit [NL]],
            Append (LOG_FILE env) [Lit (NL # rule60), Lit [NL]],
            Append (LOG_FILE env) [Lit ''Security Properties Violated:'', Lit [NL]],
            Append (LOG_FILE env) [Lit rule60, Lit [NL]],
            Execute sql_props,
            Append (LOG_FILE env) [Frame pr, Lit [NL]]] \<and>
         snd (example_queries env) =
           snd (banner env ''EXAMPLE QUERIES'') @ [Connect DB_PATH ReadWriteCreate] @
           snd (example_queries_try env) @ [Close])) \<and>
   (sqlite3_connect env = None \<and> fst (example_queries_try env) = Inl e \<longrightarrow>
      snd (example_queries env) =
        snd (banner env ''EXAMPLE QUERIES'') @ [Connect DB_PATH ReadWriteCreate] @
        snd (example_queries_try env) @
        [Append (LOG_FILE env) [Lit ''Query error: '', Err e, Lit [NL]], Close])"
proof -
  have 1: "executed (snd (example_queries env)) = [sql_first5] \<or>
    executed (snd (example_queries env)) = [sql_first5, sql_by_year] \<or>
    executed (snd (example_queries env)) = [sql_first5, sql_by_year, sql_types] \<or>
    executed (snd (example_queries env)) = [sql_first5, sql_by_year, sql_types, sql_props]"
    if "sqlite3_connect env = None"
    unfolding example_queries_executed [OF that] by (rule example_queries_try_executed)
  have 2: "executed (snd (example_queries env)) = []" if "sqlite3_connect env = Some c"
    by (simp add: example_queries_unconnected [OF that])
  have 3: "list_all (str_contains from_attacks) [sql_first5, sql_by_year, sql_types, sql_props]"
    using example_statements_table by (simp only: example_statements_def)
  have 4: "executed (snd (example_queries env)) = [sql_first5, sql_by_year, sql_types, sql_props]"
    if "sqlite3_connect env = None" "fst (example_queries_try env) = Inr ()"
    using example_queries_try_Inr [OF that(2)] unfolding example_queries_executed [OF that(1)]
    by auto
  have 5: "snd (example_queries env) =
           snd (banner env ''EXAMPLE QUERIES'') @ [Connect DB_PATH ReadWriteCreate] @
           snd (example_queries_try env) @ [Close]"
    if "sqlite3_connect env = None" "fst (example_queries_try env) = Inr ()"
    using that
    by (simp add: example_queries_def snd_and_then fst_and_then fst_try_except snd_try_except)
  from 1 2 3 4 5 example_queries_try_Inr [of env] example_queries_caught [of env e]
  show ?thesis by blast
qed

theorem four_fixed_queries_witness:
  "sqlite3_connect env_attacks = None \<and>
   fst (example_queries_try env_attacks) = Inr () \<and>
   executed (snd (example_queries env_attacks)) =
     [sql_first5, sql_by_year, sql_types, sql_props] \<and>
   read_sql_query env_attacks sql_first5 = Inr df_attacks \<and>
   read_sql_query env_attacks sql_props = Inr df_none \<and>
   Append (LOG_FILE env_attacks) [Frame df_none, Lit [NL]]
     \<in> set (snd (example_queries_try env_attacks)) \<and>
   sqlite3_connect env_unopenable = Some unable_to_open \<and>
   executed (snd (example_queries env_unopenable)) = [] \<and>
   sqlite3_connect env_notes = None \<and>
   fst (example_queries_try env_notes) = Inl no_such_table \<and>
   snd (example_queries env_notes) =
     snd (banner env_notes ''EXAMPLE QUERIES'') @ [Connect DB_PATH ReadWriteCreate] @
     snd (example_queries_try env_notes) @
     [Append (LOG_FILE env_notes) [Lit ''Query error: '', Err no_such_table, Lit [NL]], Close]"
proof -
  note a = four_fixed_queries [where env = env_attacks]
  note a4 = a [THEN conjunct2, THEN conjunct2, THEN conjunct2, THEN conjunct1, THEN mp,
             OF conjI [OF attacks_connect attacks_queries]]
  from a4 [THEN conjunct2] obtain pr where
    pr: "read_sql_query env_attacks sql_props = Inr pr" and
    l: "Append (LOG_FILE env_attacks) [Frame pr, Lit [NL]]
          \<in> set (snd (example_queries_try env_attacks))"
    by auto
  note q = attacks_answers(1)
  note p = attacks_answers(4)
  from p pr l have f: "Append (LOG_FILE env_attacks) [Frame df_none, Lit [NL]]
          \<in> set (snd (example_queries_try env_attacks))"
    by simp
  note u = four_fixed_queries [where env = env_unopenable and c = unable_to_open,
             THEN conjunct2, THEN conjunct1, THEN mp, OF unopenable_run(1)]
  have t: "fst (example_queries_try env_notes) = Inl no_such_table"
    using notes_first_query by (rule first_query_raises)
  note n = four_fixed_queries [where env = env_notes and e = no_such_table,
             THEN conjunct2, THEN conjunct2, THEN conjunct2, THEN conjunct2, THEN mp,
             OF conjI [OF notes_connect t]]
  show ?thesis
    by (intro conjI)
       (rule attacks_connect attacks_queries a4 [THEN conjunct1] q p f unopenable_run(1) u
          notes_connect t n)+
qed

end
